theory Spec2Isabelle
  imports Main
begin

section \<open>Values of the rule document\<close>

text \<open>
  The rule document reaches the plugin as text and is read by \<^verbatim>\<open>JSON.parse\<close>.
  A parsed document is a tree of JSON values.  Objects keep their entries in the order
  in which \<^verbatim>\<open>Object.entries\<close> and \<^verbatim>\<open>for ... in\<close> enumerate them; the keys of one
  object are distinct (the parser keeps the last of several equal keys).  Numbers are
  the integer-valued ones (channel counts, bit rates).  A JavaScript \<^verbatim>\<open>undefined\<close>
  is \<open>None\<close> of \<open>json option\<close>.
\<close>

datatype json =
    JNull
  | JBool bool
  | JNum int
  | JStr string
  | JArr "json list"
  | JObj "(string \<times> json) list"

section \<open>Strings and numbers of the host language\<close>

text \<open>
  A JavaScript string is a \<open>string\<close>.  The model is exact on ASCII text; a character
  outside ASCII stands for the bytes of its UTF-8 form, which the case mappings below
  leave alone.  \<^verbatim>\<open>startsWith\<close>, \<^verbatim>\<open>includes\<close> (on strings), \<^verbatim>\<open>toLowerCase\<close>,
  \<^verbatim>\<open>toUpperCase\<close> and the decimal form of an integer:
\<close>

fun startsWith :: "string \<Rightarrow> string \<Rightarrow> bool" where
  "startsWith s [] = True"
| "startsWith [] (p # ps) = False"
| "startsWith (c # cs) (p # ps) = (c = p \<and> startsWith cs ps)"

fun includes_str :: "string \<Rightarrow> string \<Rightarrow> bool" where
  "includes_str [] sub = (sub = [])"
| "includes_str (c # cs) sub = (startsWith (c # cs) sub \<or> includes_str cs sub)"

definition lower_char :: "char \<Rightarrow> char" where
  "lower_char c =
     (case map_of (zip ''ABCDEFGHIJKLMNOPQRSTUVWXYZ'' ''abcdefghijklmnopqrstuvwxyz'') c of
        Some d \<Rightarrow> d | None \<Rightarrow> c)"

definition upper_char :: "char \<Rightarrow> char" where
  "upper_char c =
     (case map_of (zip ''abcdefghijklmnopqrstuvwxyz'' ''ABCDEFGHIJKLMNOPQRSTUVWXYZ'') c of
        Some d \<Rightarrow> d | None \<Rightarrow> c)"

definition toLowerCase :: "string \<Rightarrow> string" where
  "toLowerCase s = map lower_char s"

definition toUpperCase :: "string \<Rightarrow> string" where
  "toUpperCase s = map upper_char s"

definition digit_char :: "nat \<Rightarrow> char" where
  "digit_char d = ''0123456789'' ! (d mod 10)"

function show_nat :: "nat \<Rightarrow> string" where
  "show_nat n = (if n < 10 then [digit_char n] else show_nat (n div 10) @ [digit_char (n mod 10)])"
  by pat_completeness auto
termination
  by (relation "measure id") auto

declare show_nat.simps [simp del]

definition show_int :: "int \<Rightarrow> string" where
  "show_int i = (if i < 0 then ''-'' @ show_nat (nat (- i)) else show_nat (nat i))"

text \<open>
  \<^verbatim>\<open>parseInt(s)\<close> with no radix: leading white space, an optional sign, then either
  \<^verbatim>\<open>0x\<close> and hexadecimal digits or decimal digits; what follows the digits is ignored.
  \<open>None\<close> is \<^verbatim>\<open>NaN\<close>.
\<close>

definition isWhiteSpace :: "char \<Rightarrow> bool" where
  "isWhiteSpace c = (c \<in> set [CHR 0x09, CHR 0x0A, CHR 0x0B, CHR 0x0C, CHR 0x0D, CHR 0x20])"

definition digit_value :: "char \<Rightarrow> nat option" where
  "digit_value c =
     map_of (zip ''0123456789abcdefABCDEF''
       [0, 1, 2, 3, 4, 5, 6, 7, 8, 9, 10, 11, 12, 13, 14, 15, 10, 11, 12, 13, 14, 15]) c"

definition isDigitIn :: "nat \<Rightarrow> char \<Rightarrow> bool" where
  "isDigitIn radix c = (case digit_value c of Some d \<Rightarrow> d < radix | None \<Rightarrow> False)"

definition digits_value :: "nat \<Rightarrow> string \<Rightarrow> nat" where
  "digits_value radix ds = foldl (\<lambda>acc c. acc * radix + (case digit_value c of Some d \<Rightarrow> d | None \<Rightarrow> 0)) 0 ds"

definition parseDigits :: "nat \<Rightarrow> string \<Rightarrow> nat option" where
  "parseDigits radix s =
     (let ds = takeWhile (isDigitIn radix) s
      in if ds = [] then None else Some (digits_value radix ds))"

definition parseUnsigned :: "string \<Rightarrow> nat option" where
  "parseUnsigned s =
     (if startsWith s ''0x'' \<or> startsWith s ''0X'' then parseDigits 16 (drop 2 s)
      else parseDigits 10 s)"

definition parseInt :: "string \<Rightarrow> int option" where
  "parseInt s =
     (let t = dropWhile isWhiteSpace s
      in if startsWith t ''-'' then map_option (\<lambda>n. - int n) (parseUnsigned (drop 1 t))
         else if startsWith t ''+'' then map_option int (parseUnsigned (drop 1 t))
         else map_option int (parseUnsigned t))"

text \<open>
  \<^verbatim>\<open>(parseInt(b) / 1000).toString()\<close> for an integer \<open>b\<close>: the quotient in decimal, with
  at most three fractional digits and no trailing zero (exact below \<open>10^15\<close>).
\<close>

definition show_fraction :: "nat \<Rightarrow> string" where
  "show_fraction r =
     (if r = 0 then []
      else if r mod 100 = 0 then ''.'' @ show_nat (r div 100)
      else if r mod 10 = 0 then ''.'' @ show_nat (r div 100) @ show_nat (r div 10 mod 10)
      else ''.'' @ show_nat (r div 100) @ show_nat (r div 10 mod 10) @ show_nat (r mod 10))"

definition show_kbps :: "int \<Rightarrow> string" where
  "show_kbps b =
     (let n = nat \<bar>b\<bar>
      in (if b < 0 then ''-'' else []) @ show_nat (n div 1000) @ show_fraction (n mod 1000))"

text \<open>
  \<^verbatim>\<open>s.replaceAll(find, replaceWith)\<close> with a string to search for.  The occurrences
  are found from left to right and do not overlap; the replacement text is a template
  in which \<^verbatim>\<open>$$\<close>, \<^verbatim>\<open>$&\<close>, \<^verbatim>\<open>$`\<close> and \<^verbatim>\<open>$'\<close> stand for a dollar sign, the
  matched text, the text before it and the text after it (\<^verbatim>\<open>GetSubstitution\<close>; with a
  string to search for there are no capture groups, so \<^verbatim>\<open>$1\<close> stays as it is).  Every
  call of the plugin searches for a non-empty string.
\<close>

fun getSubstitution :: "string \<Rightarrow> string \<Rightarrow> string \<Rightarrow> string \<Rightarrow> string" where
  "getSubstitution matched pre post (c # d # r) =
     (if c = CHR ''$'' \<and> d = CHR ''$'' then CHR ''$'' # getSubstitution matched pre post r
      else if c = CHR ''$'' \<and> d = CHR ''&'' then matched @ getSubstitution matched pre post r
      else if c = CHR ''$'' \<and> d = CHR 0x60 then pre @ getSubstitution matched pre post r
      else if c = CHR ''$'' \<and> d = CHR 0x27 then post @ getSubstitution matched pre post r
      else c # getSubstitution matched pre post (d # r))"
| "getSubstitution matched pre post r = r"

function replaceAllFrom :: "string \<Rightarrow> string \<Rightarrow> string \<Rightarrow> string \<Rightarrow> string" where
  "replaceAllFrom search rep pre [] = []"
| "replaceAllFrom search rep pre (c # cs) =
     (if search \<noteq> [] \<and> startsWith (c # cs) search
      then getSubstitution search pre (drop (length search) (c # cs)) rep
             @ replaceAllFrom search rep (pre @ search) (drop (length search) (c # cs))
      else c # replaceAllFrom search rep (pre @ [c]) cs)"
  by pat_completeness auto
termination
  by (relation "measure (\<lambda>(search, rep, pre, s). length s)") auto

definition replaceAll :: "string \<Rightarrow> string \<Rightarrow> string \<Rightarrow> string" where
  "replaceAll search replaceWith s = replaceAllFrom search replaceWith [] s"

section \<open>Reading the rule document\<close>

text \<open>
  \<^verbatim>\<open>typeof v === 'object' && v !== null\<close>, \<^verbatim>\<open>Array.isArray\<close> and the other
  \<^verbatim>\<open>typeof\<close> tests; truthiness of a value; \<^verbatim>\<open>v.key\<close> on a parsed object or array
  (none of the keys the plugin reads is an index or \<^verbatim>\<open>length\<close>, and none is inherited);
  \<^verbatim>\<open>Object.entries\<close>.
\<close>

fun isObject :: "json \<Rightarrow> bool" where
  "isObject (JObj kvs) = True"
| "isObject (JArr xs) = True"
| "isObject v = False"

fun isArray :: "json \<Rightarrow> bool" where
  "isArray (JArr xs) = True"
| "isArray v = False"

fun isString :: "json \<Rightarrow> bool" where
  "isString (JStr s) = True"
| "isString v = False"

fun isNumber :: "json \<Rightarrow> bool" where
  "isNumber (JNum n) = True"
| "isNumber v = False"

fun isBoolean :: "json \<Rightarrow> bool" where
  "isBoolean (JBool b) = True"
| "isBoolean v = False"

fun truthy :: "json option \<Rightarrow> bool" where
  "truthy None = False"
| "truthy (Some JNull) = False"
| "truthy (Some (JBool b)) = b"
| "truthy (Some (JNum n)) = (n \<noteq> 0)"
| "truthy (Some (JStr s)) = (s \<noteq> [])"
| "truthy (Some (JArr xs)) = True"
| "truthy (Some (JObj kvs)) = True"

fun field :: "json \<Rightarrow> string \<Rightarrow> json option" where
  "field (JObj kvs) k = map_of kvs k"
| "field v k = None"

definition field2 :: "json \<Rightarrow> string \<Rightarrow> string \<Rightarrow> json option" where
  "field2 v k1 k2 = (case field v k1 of Some w \<Rightarrow> field w k2 | None \<Rightarrow> None)"

fun entries :: "json \<Rightarrow> (string \<times> json) list" where
  "entries (JObj kvs) = kvs"
| "entries (JArr xs) = zip (map show_nat [0..<length xs]) xs"
| "entries v = []"

text \<open>
  \<^verbatim>\<open>obj.hasOwnProperty(key)\<close> followed by the read of \<^verbatim>\<open>obj.key\<close>.  The outer \<open>None\<close>
  is a \<^verbatim>\<open>TypeError\<close>: a parsed object that has a key \<^verbatim>\<open>hasOwnProperty\<close> of its own
  hides the method, and the call fails.  \<open>Some None\<close> says the key is absent.  The
  validator only calls it on objects and arrays.
\<close>

fun ownProperty :: "json \<Rightarrow> string \<Rightarrow> json option option" where
  "ownProperty (JObj kvs) k =
     (if map_of kvs ''hasOwnProperty'' = None then Some (map_of kvs k) else None)"
| "ownProperty v k = Some None"

section \<open>The validator of the rule document\<close>

text \<open>
  \<^verbatim>\<open>validateTranscodeRules\<close> returns a message or the parsed rules.  Each message of
  the source is a constructor here, with the indices the message prints; \<open>InvalidJSON\<close>
  is the message of the \<^verbatim>\<open>catch\<close> branch, reached when \<^verbatim>\<open>JSON.parse\<close> fails and when
  a method call inside the \<^verbatim>\<open>try\<close> raises a \<^verbatim>\<open>TypeError\<close>.
\<close>

datatype verror =
    NotAnArray
  | RuleNotObject nat
  | RuleMissingMatchOrOperations nat
  | MatchNotObject nat
  | MatchMissingCodecs nat
  | CodecsInvalid nat
  | ChannelsInvalid nat
  | BitrateInvalid nat
  | LanguagesInvalid nat
  | DispositionsNotObject nat
  | TitleNotObject nat
  | TitleMissingPattern nat
  | PatternNotString nat
  | CaseSensitiveNotBoolean nat
  | OperationsNotArray nat
  | OperationNotObject nat nat
  | CopyNotObject nat nat
  | CopyTitleNotString nat nat
  | CopyDispositionsNotObject nat nat
  | CopyFlagNotBoolean string nat nat
  | TranscodeNotObject nat nat
  | TranscodeMissingCodec nat nat
  | TranscodeCodecNotString nat nat
  | TranscodeChannelsNotNumber nat nat
  | TranscodeBitrateNotNumber nat nat
  | TranscodeTitleNotString nat nat
  | TranscodeDispositionsNotObject nat nat
  | TranscodeFlagNotBoolean string nat nat
  | TranscodeFiltersNotString nat nat
  | OperationWithoutCopyOrTranscode nat nat
  | InvalidJSON

text \<open>
  The source is a sequence of \<^verbatim>\<open>if (...) return message\<close>.  A check is
  \<open>Some message\<close> when it returns and \<open>None\<close> when control falls through;
  \<open>firstError\<close> runs the checks in order.
\<close>

fun firstError :: "verror option list \<Rightarrow> verror option" where
  "firstError [] = None"
| "firstError (None # cs) = firstError cs"
| "firstError (Some e # cs) = Some e"

definition unless :: "bool \<Rightarrow> verror \<Rightarrow> verror option" where
  "unless ok e = (if ok then None else Some e)"

definition requireOwn :: "json \<Rightarrow> string \<Rightarrow> verror \<Rightarrow> verror option" where
  "requireOwn obj k e =
     (case ownProperty obj k of
        None \<Rightarrow> Some InvalidJSON
      | Some None \<Rightarrow> Some e
      | Some (Some v) \<Rightarrow> None)"

definition checkOwn :: "json \<Rightarrow> string \<Rightarrow> (json \<Rightarrow> verror option) \<Rightarrow> verror option" where
  "checkOwn obj k chk =
     (case ownProperty obj k of
        None \<Rightarrow> Some InvalidJSON
      | Some None \<Rightarrow> None
      | Some (Some v) \<Rightarrow> chk v)"

definition validateFlags :: "(string \<Rightarrow> verror) \<Rightarrow> json \<Rightarrow> verror option" where
  "validateFlags message dispositions =
     firstError (map (\<lambda>(flag, v). unless (isBoolean v) (message flag)) (entries dispositions))"

definition validateCopy :: "nat \<Rightarrow> nat \<Rightarrow> json \<Rightarrow> verror option" where
  "validateCopy i j copy =
     firstError
       [unless (isObject copy) (CopyNotObject j i),
        checkOwn copy ''title'' (\<lambda>t. unless (isString t) (CopyTitleNotString j i)),
        checkOwn copy ''dispositions'' (\<lambda>d.
          firstError
            [unless (isObject d) (CopyDispositionsNotObject j i),
             validateFlags (\<lambda>flag. CopyFlagNotBoolean flag j i) d])]"

definition validateTranscode :: "nat \<Rightarrow> nat \<Rightarrow> json \<Rightarrow> verror option" where
  "validateTranscode i j transcode =
     firstError
       [unless (isObject transcode) (TranscodeNotObject j i),
        requireOwn transcode ''codec'' (TranscodeMissingCodec j i),
        checkOwn transcode ''codec'' (\<lambda>c. unless (isString c) (TranscodeCodecNotString j i)),
        checkOwn transcode ''channels'' (\<lambda>c. unless (isNumber c) (TranscodeChannelsNotNumber j i)),
        checkOwn transcode ''bitrate'' (\<lambda>b. unless (isNumber b) (TranscodeBitrateNotNumber j i)),
        checkOwn transcode ''title'' (\<lambda>t. unless (isString t) (TranscodeTitleNotString j i)),
        checkOwn transcode ''dispositions'' (\<lambda>d.
          firstError
            [unless (isObject d) (TranscodeDispositionsNotObject j i),
             validateFlags (\<lambda>flag. TranscodeFlagNotBoolean flag j i) d]),
        checkOwn transcode ''filters'' (\<lambda>f. unless (isString f) (TranscodeFiltersNotString j i))]"

definition validateOperation :: "nat \<Rightarrow> nat \<Rightarrow> json \<Rightarrow> verror option" where
  "validateOperation i j operation =
     (if \<not> isObject operation then Some (OperationNotObject j i)
      else case ownProperty operation ''copy'' of
        None \<Rightarrow> Some InvalidJSON
      | Some (Some copy) \<Rightarrow> validateCopy i j copy
      | Some None \<Rightarrow>
          (case ownProperty operation ''transcode'' of
             None \<Rightarrow> Some InvalidJSON
           | Some (Some transcode) \<Rightarrow> validateTranscode i j transcode
           | Some None \<Rightarrow> Some (OperationWithoutCopyOrTranscode j i)))"

definition validateOperations :: "nat \<Rightarrow> json \<Rightarrow> verror option" where
  "validateOperations i operations =
     (case operations of
        JArr ops \<Rightarrow> firstError (map (\<lambda>(j, operation). validateOperation i j operation)
                                  (zip [0..<length ops] ops))
      | _ \<Rightarrow> Some (OperationsNotArray i))"

text \<open>
  The test of \<^verbatim>\<open>match.codecs\<close>: an array, \<^verbatim>\<open>'*'\<close>, or a string that starts with
  \<^verbatim>\<open>!\<close>.  On a value that is neither an array nor a string the call of
  \<^verbatim>\<open>startsWith\<close> raises, which the \<^verbatim>\<open>catch\<close> turns into a message.
\<close>

definition validateCodecs :: "nat \<Rightarrow> json \<Rightarrow> verror option" where
  "validateCodecs i codecs =
     (case codecs of
        JArr cs \<Rightarrow> None
      | JStr s \<Rightarrow> unless (s = ''*'' \<or> startsWith s ''!'') (CodecsInvalid i)
      | _ \<Rightarrow> Some InvalidJSON)"

definition validateTitle :: "nat \<Rightarrow> json \<Rightarrow> verror option" where
  "validateTitle i title =
     firstError
       [unless (isObject title) (TitleNotObject i),
        requireOwn title ''pattern'' (TitleMissingPattern i),
        checkOwn title ''pattern'' (\<lambda>p. unless (isString p) (PatternNotString i)),
        checkOwn title ''caseSensitive'' (\<lambda>c. unless (isBoolean c) (CaseSensitiveNotBoolean i))]"

definition validateMatch :: "nat \<Rightarrow> json \<Rightarrow> verror option" where
  "validateMatch i match =
     firstError
       [unless (isObject match) (MatchNotObject i),
        requireOwn match ''codecs'' (MatchMissingCodecs i),
        checkOwn match ''codecs'' (validateCodecs i),
        checkOwn match ''channels'' (\<lambda>c. unless (isString c \<or> isArray c) (ChannelsInvalid i)),
        checkOwn match ''bitrate'' (\<lambda>b. unless (isString b \<or> isArray b) (BitrateInvalid i)),
        checkOwn match ''languages'' (\<lambda>l. unless (isString l \<or> isArray l) (LanguagesInvalid i)),
        checkOwn match ''dispositions'' (\<lambda>d. unless (isObject d) (DispositionsNotObject i)),
        checkOwn match ''title'' (validateTitle i)]"

definition validateRule :: "nat \<Rightarrow> json \<Rightarrow> verror option" where
  "validateRule i rule =
     (if \<not> isObject rule then Some (RuleNotObject i)
      else case ownProperty rule ''match'' of
        None \<Rightarrow> Some InvalidJSON
      | Some None \<Rightarrow> Some (RuleMissingMatchOrOperations i)
      | Some (Some match) \<Rightarrow>
          (case ownProperty rule ''operations'' of
             None \<Rightarrow> Some InvalidJSON
           | Some None \<Rightarrow> Some (RuleMissingMatchOrOperations i)
           | Some (Some operations) \<Rightarrow>
               firstError [validateMatch i match, validateOperations i operations]))"

text \<open>
  A rule that passes has had its title pattern rewritten in place:
  \<^verbatim>\<open>match.title.pattern = match.title.pattern.replaceAll("\\\\", "\\")\<close>, two
  backslashes becoming one.
\<close>

fun setField :: "json \<Rightarrow> string \<Rightarrow> json \<Rightarrow> json" where
  "setField (JObj kvs) k v = JObj (map (\<lambda>(k', v'). if k' = k then (k', v) else (k', v')) kvs)"
| "setField w k v = w"

definition normalisePattern :: "json \<Rightarrow> json" where
  "normalisePattern rule =
     (case field rule ''match'' of
        Some match \<Rightarrow>
          (case field match ''title'' of
             Some title \<Rightarrow>
               (case field title ''pattern'' of
                  Some (JStr p) \<Rightarrow>
                    setField rule ''match''
                      (setField match ''title''
                         (setField title ''pattern''
                            (JStr (replaceAll [CHR 0x5C, CHR 0x5C] [CHR 0x5C] p))))
                | _ \<Rightarrow> rule)
           | None \<Rightarrow> rule)
      | None \<Rightarrow> rule)"

definition validateRules :: "json list \<Rightarrow> verror option" where
  "validateRules rules =
     firstError (map (\<lambda>(i, rule). validateRule i rule) (zip [0..<length rules] rules))"

definition validateTranscodeRules :: "json option \<Rightarrow> verror + json list" where
  "validateTranscodeRules parsed =
     (case parsed of
        None \<Rightarrow> Inl InvalidJSON
      | Some (JArr rules) \<Rightarrow>
          (case validateRules rules of
             Some e \<Rightarrow> Inl e
           | None \<Rightarrow> Inr (map normalisePattern rules))
      | Some v \<Rightarrow> Inl NotAnArray)"

section \<open>Tracks and the host\<close>

text \<open>
  A stream as the probing collaborator reports it.  \<open>tags_language\<close> and \<open>tags_title\<close>
  are \<^verbatim>\<open>track.tags && track.tags.language\<close> and \<^verbatim>\<open>track.tags && track.tags.title\<close>;
  a field that may be missing is an option.  Channel counts, bit rates and disposition
  values are integers.
\<close>

record stream =
  codec_type :: string
  codec_name :: "string option"
  channels :: int
  bit_rate :: "int option"
  channel_layout :: "string option"
  tags_language :: "string option"
  tags_title :: "string option"
  disposition :: "(string \<times> int) list"

text \<open>
  Exceptions that leave the plugin: a method call on \<^verbatim>\<open>undefined\<close> or on a value
  without that method, a pattern that \<^verbatim>\<open>new RegExp\<close> rejects, a rule document that
  \<^verbatim>\<open>btoa\<close> rejects.
\<close>

datatype jserror = TypeError | SyntaxError | InvalidCharacterError

text \<open>
  The host's functions that the plugin calls and of which the repository holds no code,
  taken as parameters: \<open>re_test pattern flags s\<close> is
  \<^verbatim>\<open>new RegExp(pattern, flags).test(s)\<close>; \<open>re_matchAll pattern flags s\<close> is the list of
  \<^verbatim>\<open>match.slice(1)\<close> for the matches of \<^verbatim>\<open>s.matchAll(new RegExp(pattern, flags))\<close>, a
  group that took no part being \<open>None\<close>; both are \<open>None\<close> when the constructor
  raises.  \<open>btoa_stringify rules\<close> is \<^verbatim>\<open>btoa(JSON.stringify(rules))\<close>, \<open>None\<close> when
  \<^verbatim>\<open>btoa\<close> raises.
\<close>

record runtime =
  re_test :: "string \<Rightarrow> string \<Rightarrow> string \<Rightarrow> bool option"
  re_matchAll :: "string \<Rightarrow> string \<Rightarrow> string \<Rightarrow> string option list list option"
  btoa_stringify :: "json list \<Rightarrow> string option"

definition trackTitleOf :: "stream \<Rightarrow> string" where
  "trackTitleOf track = (case tags_title track of Some t \<Rightarrow> t | None \<Rightarrow> [])"

definition trackLanguageOf :: "stream \<Rightarrow> string" where
  "trackLanguageOf track =
     (case tags_language track of Some l \<Rightarrow> (if l = [] then ''und'' else l) | None \<Rightarrow> ''und'')"

section \<open>The selector matcher\<close>

text \<open>
  \<^verbatim>\<open>matchesIntCondition(value, condition)\<close>.  A comparison with \<^verbatim>\<open>NaN\<close> or with
  \<^verbatim>\<open>undefined\<close> is false.  A condition that is not a string has no \<^verbatim>\<open>startsWith\<close>.
\<close>

definition compareWith :: "(int \<Rightarrow> int \<Rightarrow> bool) \<Rightarrow> int option \<Rightarrow> int option \<Rightarrow> bool" where
  "compareWith rel a b =
     (case a of None \<Rightarrow> False | Some x \<Rightarrow> (case b of None \<Rightarrow> False | Some y \<Rightarrow> rel x y))"

definition matchesIntCondition :: "int option \<Rightarrow> json \<Rightarrow> jserror + bool" where
  "matchesIntCondition v condition =
     (case condition of
        JStr c \<Rightarrow>
          Inr (if startsWith c ''<='' then compareWith (\<le>) v (parseInt (drop 2 c))
               else if startsWith c ''>='' then compareWith (\<ge>) v (parseInt (drop 2 c))
               else if startsWith c ''<'' then compareWith (<) v (parseInt (drop 1 c))
               else if startsWith c ''>'' then compareWith (>) v (parseInt (drop 1 c))
               else compareWith (=) v (parseInt c))
      | _ \<Rightarrow> Inl TypeError)"

text \<open>
  \<^verbatim>\<open>trackMatches\<close> is a sequence of tests, each of which may return false or raise.
  \<open>allTests\<close> runs such a sequence from left to right and stops at the first test that
  is false or raises.
\<close>

fun allTests :: "(jserror + bool) list \<Rightarrow> jserror + bool" where
  "allTests [] = Inr True"
| "allTests (Inl e # ts) = Inl e"
| "allTests (Inr False # ts) = Inr False"
| "allTests (Inr True # ts) = allTests ts"

definition asArray :: "json \<Rightarrow> json list" where
  "asArray v = (case v of JArr xs \<Rightarrow> xs | _ \<Rightarrow> [v])"

definition codecsTest :: "stream \<Rightarrow> json option \<Rightarrow> jserror + bool" where
  "codecsTest trackData codecs =
     (case codecs of
        Some (JArr cs) \<Rightarrow>
          (case codec_name trackData of
             None \<Rightarrow> Inl TypeError
           | Some n \<Rightarrow> Inr (JStr (toLowerCase n) \<in> set cs))
      | Some (JStr s) \<Rightarrow>
          (if s = ''*'' then Inr True
           else case codec_name trackData of
             None \<Rightarrow> Inl TypeError
           | Some n \<Rightarrow> Inr (toLowerCase n \<noteq> toLowerCase (drop 1 s)))
      | _ \<Rightarrow> Inl TypeError)"

definition intConditionsTest :: "int option \<Rightarrow> json option \<Rightarrow> jserror + bool" where
  "intConditionsTest v conditions =
     (case conditions of
        None \<Rightarrow> Inr True
      | Some c \<Rightarrow>
          (if truthy (Some c) then allTests (map (matchesIntCondition v) (asArray c))
           else Inr True))"

definition languagesTest :: "stream \<Rightarrow> json option \<Rightarrow> jserror + bool" where
  "languagesTest trackData languages =
     (case languages of
        None \<Rightarrow> Inr True
      | Some l \<Rightarrow>
          (if truthy (Some l) then Inr (JStr (trackLanguageOf trackData) \<in> set (asArray l))
           else Inr True))"

definition dispositionHolds :: "stream \<Rightarrow> string \<times> json \<Rightarrow> bool" where
  "dispositionHolds trackData e =
     (case map_of (disposition trackData) (fst e) of
        None \<Rightarrow> False
      | Some n \<Rightarrow> snd e = JNum n)"

definition dispositionsTest :: "stream \<Rightarrow> json option \<Rightarrow> jserror + bool" where
  "dispositionsTest trackData dispositions =
     (case dispositions of
        None \<Rightarrow> Inr True
      | Some d \<Rightarrow>
          (if truthy (Some d) then Inr (list_all (dispositionHolds trackData) (entries d))
           else Inr True))"

text \<open>
  The title test compiles the pattern with no flag when \<^verbatim>\<open>caseSensitive\<close> is truthy
  and with the flag \<^verbatim>\<open>i\<close> otherwise.
\<close>

definition matcherFlags :: "json option \<Rightarrow> string" where
  "matcherFlags caseSensitive = (if truthy caseSensitive then [] else ''i'')"

definition patternOf :: "json \<Rightarrow> string" where
  "patternOf title = (case field title ''pattern'' of Some (JStr p) \<Rightarrow> p | _ \<Rightarrow> [])"

definition titleTest :: "runtime \<Rightarrow> stream \<Rightarrow> json option \<Rightarrow> jserror + bool" where
  "titleTest rt trackData title =
     (case title of
        None \<Rightarrow> Inr True
      | Some t \<Rightarrow>
          (if truthy (Some t)
           then (case re_test rt (patternOf t) (matcherFlags (field t ''caseSensitive''))
                        (trackTitleOf trackData) of
                   None \<Rightarrow> Inl SyntaxError
                 | Some b \<Rightarrow> Inr b)
           else Inr True))"

definition trackMatches :: "runtime \<Rightarrow> stream \<Rightarrow> json \<Rightarrow> jserror + bool" where
  "trackMatches rt trackData matchRule =
     allTests
       [codecsTest trackData (field matchRule ''codecs''),
        intConditionsTest (Some (channels trackData)) (field matchRule ''channels''),
        intConditionsTest (bit_rate trackData) (field matchRule ''bitrate''),
        languagesTest trackData (field matchRule ''languages''),
        dispositionsTest trackData (field matchRule ''dispositions''),
        titleTest rt trackData (field matchRule ''title'')]"

section \<open>Disposition flags\<close>

text \<open>
  \<^verbatim>\<open>getDispositionFlags\<close>: the loop over \<^verbatim>\<open>Object.entries(dispositions)\<close> with its
  variable \<^verbatim>\<open>isFirstFlag\<close>, which is cleared after the first entry whatever its value;
  \<^verbatim>\<open>flags.join('')\<close> concatenates the pieces.
\<close>

fun dispositionLoop :: "bool \<Rightarrow> (string \<times> json) list \<Rightarrow> string list" where
  "dispositionLoop isFirstFlag [] = []"
| "dispositionLoop isFirstFlag ((flag, v) # rest) =
     (if v = JBool True then (if isFirstFlag then flag else ''+'' @ flag) else ''-'' @ flag)
       # dispositionLoop False rest"

definition getDispositionFlags :: "(string \<times> json) list \<Rightarrow> string" where
  "getDispositionFlags es = concat (dispositionLoop True es)"

section \<open>The title template expander\<close>

text \<open>
  \<^verbatim>\<open>ToString\<close> of a parsed value, as \<^verbatim>\<open>replaceAll\<close> and \<^verbatim>\<open>parseInt\<close> apply it to their
  arguments; \<open>None\<close> is a \<^verbatim>\<open>TypeError\<close> (an object whose own key \<^verbatim>\<open>toString\<close> hides
  the method).
\<close>

fun joinWith :: "string \<Rightarrow> string list \<Rightarrow> string" where
  "joinWith sep [] = []"
| "joinWith sep [x] = x"
| "joinWith sep (x # y # ys) = x @ sep @ joinWith sep (y # ys)"

fun allSome :: "'a option list \<Rightarrow> 'a list option" where
  "allSome [] = Some []"
| "allSome (None # xs) = None"
| "allSome (Some x # xs) = map_option (\<lambda>ys. x # ys) (allSome xs)"

fun js_toString :: "json \<Rightarrow> string option" where
  "js_toString JNull = Some ''null''"
| "js_toString (JBool b) = Some (if b then ''true'' else ''false'')"
| "js_toString (JNum n) = Some (show_int n)"
| "js_toString (JStr s) = Some s"
| "js_toString (JArr xs) =
     map_option (joinWith '','')
       (allSome (map (\<lambda>x. if x = JNull then Some [] else js_toString x) xs))"
| "js_toString (JObj kvs) =
     (if map_of kvs ''toString'' = None then Some ''[object Object]'' else None)"

text \<open>\<^verbatim>\<open>getFancyChannels\<close>, on the string form of its argument.\<close>

definition getFancyChannels :: "string \<Rightarrow> string" where
  "getFancyChannels channelsCount =
     (case parseInt channelsCount of
        None \<Rightarrow> ''NaN.1''
      | Some c \<Rightarrow>
          (if c = 1 then ''Mono'' else if c = 2 then ''Stereo'' else show_int (c - 1) @ ''.1''))"

text \<open>
  The capture-group pass of \<^verbatim>\<open>getNewTrackTitle\<close>: for each match, in order, and for
  each group of the match, in order, every occurrence of the group's placeholder in the
  title built so far is replaced.  A group that took no part is \<^verbatim>\<open>undefined\<close>, which
  \<^verbatim>\<open>replaceAll\<close> writes as that word.
\<close>

definition groupText :: "string option \<Rightarrow> string" where
  "groupText g = (case g of Some t \<Rightarrow> t | None \<Rightarrow> ''undefined'')"

definition placeholder :: "nat \<Rightarrow> string" where
  "placeholder n = ''{'' @ show_nat n @ ''}''"

fun applyGroups :: "nat \<Rightarrow> string option list \<Rightarrow> string \<Rightarrow> string" where
  "applyGroups index [] newTrackTitle = newTrackTitle"
| "applyGroups index (g # groups) newTrackTitle =
     applyGroups (index + 1) groups
       (replaceAll (placeholder (index + 1)) (groupText g) newTrackTitle)"

fun applyMatches :: "string option list list \<Rightarrow> string \<Rightarrow> string" where
  "applyMatches [] newTrackTitle = newTrackTitle"
| "applyMatches (m # ms) newTrackTitle = applyMatches ms (applyGroups 0 m newTrackTitle)"

definition expanderFlags :: "json option \<Rightarrow> string" where
  "expanderFlags caseSensitive = (if truthy caseSensitive then ''g'' else ''gi'')"

definition captureGroups :: "runtime \<Rightarrow> json option \<Rightarrow> string \<Rightarrow> string \<Rightarrow> jserror + string" where
  "captureGroups rt matchTitle trackTitle newTrackTitle =
     (case matchTitle of
        None \<Rightarrow> Inr newTrackTitle
      | Some t \<Rightarrow>
          (if truthy (Some t)
           then (case re_matchAll rt (patternOf t) (expanderFlags (field t ''caseSensitive''))
                        trackTitle of
                   None \<Rightarrow> Inl SyntaxError
                 | Some ms \<Rightarrow> Inr (applyMatches ms newTrackTitle))
           else Inr newTrackTitle))"

text \<open>
  The output codec name of the title: \<^verbatim>\<open>operation.codec\<close> when it is truthy and not
  \<^verbatim>\<open>"copy"\<close>, the track's codec otherwise; \<open>None\<close> when the value has no
  \<^verbatim>\<open>toLowerCase\<close>.  The output channels of the title: \<^verbatim>\<open>operation.channels\<close> when it
  is truthy, the track's channels otherwise.
\<close>

definition outputCodecName :: "json \<Rightarrow> string \<Rightarrow> string option" where
  "outputCodecName operation inputCodec =
     (let c = field operation ''codec''
      in if truthy c \<and> c \<noteq> Some (JStr ''copy'')
         then (case c of Some (JStr n) \<Rightarrow> Some n | _ \<Rightarrow> None)
         else Some inputCodec)"

definition outputChannelsText :: "json \<Rightarrow> stream \<Rightarrow> string option" where
  "outputChannelsText operation track =
     (case field operation ''channels'' of
        None \<Rightarrow> Some (show_int (channels track))
      | Some c \<Rightarrow> (if truthy (Some c) then js_toString c else Some (show_int (channels track))))"

definition titleTemplate :: "json \<Rightarrow> string" where
  "titleTemplate operation =
     (case field operation ''title'' of
        None \<Rightarrow> ''undefined''
      | Some t \<Rightarrow> (case js_toString t of Some text \<Rightarrow> text | None \<Rightarrow> []))"

definition bitrateTags :: "string \<Rightarrow> string \<Rightarrow> int option \<Rightarrow> string \<Rightarrow> string" where
  "bitrateTags tag tag_kbps b newTrackTitle =
     (case b of
        None \<Rightarrow> newTrackTitle
      | Some n \<Rightarrow>
          (if n = 0 then newTrackTitle
           else replaceAll tag_kbps (show_kbps n) (replaceAll tag (show_int n) newTrackTitle)))"

definition sanitise :: "string \<Rightarrow> string" where
  "sanitise newTrackTitle =
     replaceAll [CHR 0x22] [CHR 0xE2, CHR 0x80, CHR 0xB3]
       (replaceAll '','' [CHR 0xE2, CHR 0x80, CHR 0x9A] newTrackTitle)"

definition channelLayoutText :: "stream \<Rightarrow> string" where
  "channelLayoutText track = (case channel_layout track of Some l \<Rightarrow> l | None \<Rightarrow> ''undefined'')"

text \<open>
  The tags after the capture groups, in the order of the source.  \<open>substituteTags\<close> is
  the part of \<^verbatim>\<open>getNewTrackTitle\<close> from \<^verbatim>\<open>{title}\<close> to the final replacement of commas
  and double quotes (by U+201A and U+2033, written here in UTF-8).
\<close>

definition substituteTags ::
  "stream \<Rightarrow> string \<Rightarrow> string \<Rightarrow> string \<Rightarrow> int option \<Rightarrow> string \<Rightarrow> string" where
  "substituteTags track inputCodec codecName outputChannels bitrate newTrackTitle =
     sanitise
      (bitrateTags ''{o_bitrate}'' ''{o_bitrate_kbps}'' bitrate
      (bitrateTags ''{i_bitrate}'' ''{i_bitrate_kbps}'' (bit_rate track)
      (replaceAll ''{o_channels_fancy}'' (getFancyChannels outputChannels)
      (replaceAll ''{o_channels}'' outputChannels
      (replaceAll ''{i_channel_layout}'' (channelLayoutText track)
      (replaceAll ''{i_channels_fancy}'' (getFancyChannels (show_int (channels track)))
      (replaceAll ''{i_channels}'' (show_int (channels track))
      (replaceAll ''{o_CODEC}'' (toUpperCase codecName)
      (replaceAll ''{o_codec}'' (toLowerCase codecName)
      (replaceAll ''{i_CODEC}'' (toUpperCase inputCodec)
      (replaceAll ''{i_codec}'' (toLowerCase inputCodec)
      (replaceAll ''{LANG}'' (toUpperCase (trackLanguageOf track))
      (replaceAll ''{lang}'' (toLowerCase (trackLanguageOf track))
      (replaceAll ''{title}'' (trackTitleOf track) newTrackTitle))))))))))))))"

definition getNewTrackTitle ::
  "runtime \<Rightarrow> stream \<Rightarrow> json option \<Rightarrow> json \<Rightarrow> int option \<Rightarrow> jserror + string" where
  "getNewTrackTitle rt track matchTitle operation bitrate =
     (case captureGroups rt matchTitle (trackTitleOf track) (titleTemplate operation) of
        Inl e \<Rightarrow> Inl e
      | Inr newTrackTitle \<Rightarrow>
          (case codec_name track of
             None \<Rightarrow> Inl TypeError
           | Some inputCodec \<Rightarrow>
               (case outputCodecName operation inputCodec of
                  None \<Rightarrow> Inl TypeError
                | Some codecName \<Rightarrow>
                    (case outputChannelsText operation track of
                       None \<Rightarrow> Inl TypeError
                     | Some outputChannels \<Rightarrow>
                         Inr (substituteTags track inputCodec codecName outputChannels bitrate
                                newTrackTitle)))))"

section \<open>The command synthesizer\<close>

text \<open>
  Each string that the source pushes onto \<^verbatim>\<open>audioTracksCommands\<close> is one constructor,
  and \<open>render\<close> gives the string.  \<open>MapCopy i out\<close> is
  \<^verbatim>\<open>-map 0:a:i -c:a:out copy\<close>; \<open>MapSource i\<close> is \<^verbatim>\<open>-map 0:a:i\<close>; the others carry the
  output index first.
\<close>

datatype command =
    MapCopy nat nat
  | MapSource nat
  | SetCodec nat string
  | SetChannels nat int
  | SetBitrate nat int
  | SetTitle nat string
  | SetDisposition nat string
  | SetFilter nat string

fun render :: "command \<Rightarrow> string" where
  "render (MapCopy i out) = ''-map 0:a:'' @ show_nat i @ '' -c:a:'' @ show_nat out @ '' copy''"
| "render (MapSource i) = ''-map 0:a:'' @ show_nat i"
| "render (SetCodec out c) = ''-c:a:'' @ show_nat out @ '' '' @ c"
| "render (SetChannels out n) = ''-ac:a:'' @ show_nat out @ '' '' @ show_int n"
| "render (SetBitrate out n) = ''-b:a:'' @ show_nat out @ '' '' @ show_int n"
| "render (SetTitle out t) =
     ''-metadata:s:a:'' @ show_nat out @ '' '' @ [CHR 0x22] @ ''title='' @ t @ [CHR 0x22]"
| "render (SetDisposition out f) = ''-disposition:a:'' @ show_nat out @ '' '' @ f"
| "render (SetFilter out f) =
     ''-filter:a:'' @ show_nat out @ '' '' @ [CHR 0x22] @ f @ [CHR 0x22]"

text \<open>The ceilings \<^verbatim>\<open>codecChannelsLimits\<close> and \<^verbatim>\<open>codecBitrateLimits\<close>.\<close>

definition codecChannelsLimits :: "string \<Rightarrow> int option" where
  "codecChannelsLimits c = (if c = ''ac3'' then Some 6 else if c = ''mp3'' then Some 2 else None)"

definition codecBitrateLimits :: "string \<Rightarrow> int option" where
  "codecBitrateLimits c =
     (if c = ''ac3'' then Some 640000 else if c = ''mp3'' then Some 320000 else None)"

definition exceeds :: "int \<Rightarrow> int option \<Rightarrow> bool" where
  "exceeds n limit = (case limit of None \<Rightarrow> False | Some l \<Rightarrow> n > l)"

definition clamp :: "int \<Rightarrow> int option \<Rightarrow> int" where
  "clamp n limit = (case limit of None \<Rightarrow> n | Some l \<Rightarrow> (if n > l then l else n))"

definition numberOf :: "json option \<Rightarrow> int" where
  "numberOf v = (case v of Some (JNum n) \<Rightarrow> n | _ \<Rightarrow> 0)"

definition stringOf :: "json option \<Rightarrow> string" where
  "stringOf v = (case v of Some (JStr t) \<Rightarrow> t | _ \<Rightarrow> [])"

text \<open>
  The optional title and dispositions instructions of an operation; \<open>operation\<close> is
  \<^verbatim>\<open>operation.copy\<close> or \<^verbatim>\<open>operation.transcode\<close>.
\<close>

definition titleCommands ::
  "runtime \<Rightarrow> stream \<Rightarrow> json option \<Rightarrow> json \<Rightarrow> int option \<Rightarrow> nat \<Rightarrow> jserror + command list" where
  "titleCommands rt track matchTitle operation bitrate out =
     (if truthy (field operation ''title'')
      then (case getNewTrackTitle rt track matchTitle operation bitrate of
              Inl e \<Rightarrow> Inl e
            | Inr newTrackTitle \<Rightarrow> Inr [SetTitle out newTrackTitle])
      else Inr [])"

definition dispositionCommands :: "json \<Rightarrow> nat \<Rightarrow> command list" where
  "dispositionCommands operation out =
     (case field operation ''dispositions'' of
        None \<Rightarrow> []
      | Some d \<Rightarrow>
          (if truthy (Some d) then [SetDisposition out (getDispositionFlags (entries d))]
           else []))"

definition copyCommands ::
  "runtime \<Rightarrow> stream \<Rightarrow> json option \<Rightarrow> json \<Rightarrow> nat \<Rightarrow> nat \<Rightarrow> jserror + command list" where
  "copyCommands rt track matchTitle copy i out =
     (case titleCommands rt track matchTitle copy (bit_rate track) out of
        Inl e \<Rightarrow> Inl e
      | Inr ts \<Rightarrow> Inr ([MapCopy i out] @ ts @ dispositionCommands copy out))"

text \<open>
  The channels of a transcode: the explicit value when it is truthy, the track's
  otherwise; 8 when the target is AAC, the source has more than 6 channels and no value
  is given.  The instruction is written when a value is given, when the value differs
  from the track's, when it exceeds the codec's ceiling, or when it was forced; the
  ceiling is applied at that point.
\<close>

definition channelsCommands :: "stream \<Rightarrow> json \<Rightarrow> string \<Rightarrow> nat \<Rightarrow> command list" where
  "channelsCommands track transcode targetCodec out =
     (let explicit = truthy (field transcode ''channels'');
          forceChannels = (toLowerCase targetCodec = ''aac'' \<and> channels track > 6 \<and> \<not> explicit);
          chans = (if forceChannels then 8
                   else if explicit then numberOf (field transcode ''channels'')
                   else channels track)
      in if explicit \<or> chans \<noteq> channels track
            \<or> exceeds chans (codecChannelsLimits targetCodec) \<or> forceChannels
         then [SetChannels out (clamp chans (codecChannelsLimits targetCodec))]
         else [])"

text \<open>
  The bit rate of a transcode: the explicit value when it is truthy, clamped to the
  codec's ceiling and written as an instruction; the track's bit rate otherwise, as it
  is and with no instruction.
\<close>

definition resolvedBitrate :: "stream \<Rightarrow> json \<Rightarrow> string \<Rightarrow> int option" where
  "resolvedBitrate track transcode targetCodec =
     (if truthy (field transcode ''bitrate'')
      then Some (clamp (numberOf (field transcode ''bitrate'')) (codecBitrateLimits targetCodec))
      else bit_rate track)"

definition bitrateCommands :: "stream \<Rightarrow> json \<Rightarrow> string \<Rightarrow> nat \<Rightarrow> command list" where
  "bitrateCommands track transcode targetCodec out =
     (if truthy (field transcode ''bitrate'')
      then [SetBitrate out
              (clamp (numberOf (field transcode ''bitrate'')) (codecBitrateLimits targetCodec))]
      else [])"

definition filterCommands :: "json \<Rightarrow> nat \<Rightarrow> command list" where
  "filterCommands transcode out =
     (if truthy (field transcode ''filters'')
      then [SetFilter out (stringOf (field transcode ''filters''))]
      else [])"

text \<open>
  The target codec is the track's codec when the operation says \<^verbatim>\<open>"copy"\<close> and the
  operation's codec otherwise.  It is \<open>None\<close> when the track has no codec name; the
  log entry then calls \<^verbatim>\<open>toUpperCase\<close> on \<^verbatim>\<open>undefined\<close>, which raises.  The
  instructions of a transcode follow in the order in which the source pushes them.
\<close>

definition targetCodecOf :: "stream \<Rightarrow> json \<Rightarrow> string option" where
  "targetCodecOf track transcode =
     (if field transcode ''codec'' = Some (JStr ''copy'') then codec_name track
      else Some (stringOf (field transcode ''codec'')))"

definition transcodeCommands ::
  "runtime \<Rightarrow> stream \<Rightarrow> json option \<Rightarrow> json \<Rightarrow> nat \<Rightarrow> nat \<Rightarrow> jserror + command list" where
  "transcodeCommands rt track matchTitle transcode i out =
     (case targetCodecOf track transcode of
        None \<Rightarrow> Inl TypeError
      | Some targetCodec \<Rightarrow>
          (case titleCommands rt track matchTitle transcode
                  (resolvedBitrate track transcode targetCodec) out of
             Inl e \<Rightarrow> Inl e
           | Inr ts \<Rightarrow>
               Inr ([MapSource i, SetCodec out targetCodec]
                    @ channelsCommands track transcode targetCodec out
                    @ bitrateCommands track transcode targetCodec out
                    @ ts
                    @ dispositionCommands transcode out
                    @ filterCommands transcode out)))"

text \<open>
  The state of the loop over the audio tracks: \<^verbatim>\<open>audioTracksCommands\<close>,
  \<^verbatim>\<open>inputTrackIndex\<close>, \<^verbatim>\<open>outputTrackIndex\<close> and \<^verbatim>\<open>requireTranscode\<close>.
\<close>

record progress =
  audioTracksCommands :: "command list"
  inputTrackIndex :: nat
  outputTrackIndex :: nat
  requireTranscode :: bool

definition operationCommands ::
  "runtime \<Rightarrow> stream \<Rightarrow> json option \<Rightarrow> json \<Rightarrow> nat \<Rightarrow> nat \<Rightarrow> jserror + command list" where
  "operationCommands rt track matchTitle operation i out =
     (case field operation ''copy'' of
        None \<Rightarrow>
          (case field operation ''transcode'' of
             None \<Rightarrow> Inr []
           | Some transcode \<Rightarrow>
               (if truthy (Some transcode) then transcodeCommands rt track matchTitle transcode i out
                else Inr []))
      | Some copy \<Rightarrow>
          (if truthy (Some copy) then copyCommands rt track matchTitle copy i out
           else (case field operation ''transcode'' of
                   None \<Rightarrow> Inr []
                 | Some transcode \<Rightarrow>
                     (if truthy (Some transcode)
                      then transcodeCommands rt track matchTitle transcode i out
                      else Inr []))))"

text \<open>
  One operation of the matched rule: its instructions, then \<^verbatim>\<open>outputTrackIndex++\<close>
  and \<^verbatim>\<open>requireTranscode = true\<close>.
\<close>

definition applyOperation ::
  "runtime \<Rightarrow> stream \<Rightarrow> json option \<Rightarrow> progress \<Rightarrow> json \<Rightarrow> jserror + progress" where
  "applyOperation rt track matchTitle st operation =
     (case operationCommands rt track matchTitle operation
             (inputTrackIndex st) (outputTrackIndex st) of
        Inl e \<Rightarrow> Inl e
      | Inr cs \<Rightarrow>
          Inr (st\<lparr>audioTracksCommands := audioTracksCommands st @ cs,
                  outputTrackIndex := outputTrackIndex st + 1,
                  requireTranscode := True\<rparr>))"

fun applyOperations ::
  "runtime \<Rightarrow> stream \<Rightarrow> json option \<Rightarrow> progress \<Rightarrow> json list \<Rightarrow> jserror + progress" where
  "applyOperations rt track matchTitle st [] = Inr st"
| "applyOperations rt track matchTitle st (operation # operations) =
     (case applyOperation rt track matchTitle st operation of
        Inl e \<Rightarrow> Inl e
      | Inr st' \<Rightarrow> applyOperations rt track matchTitle st' operations)"

definition operationsOf :: "json \<Rightarrow> json list" where
  "operationsOf rule = (case field rule ''operations'' of Some (JArr ops) \<Rightarrow> ops | _ \<Rightarrow> [])"

definition matchOf :: "json \<Rightarrow> json" where
  "matchOf rule = (case field rule ''match'' of Some m \<Rightarrow> m | None \<Rightarrow> JNull)"

text \<open>
  The log line of a match prints \<^verbatim>\<open>rule.name\<close> when it is truthy, which applies
  \<^verbatim>\<open>ToString\<close> to a value that the validator has not looked at; \<open>None\<close> is the
  \<^verbatim>\<open>TypeError\<close> of that conversion.  No other log line can raise.
\<close>

definition ruleNameText :: "json \<Rightarrow> string option" where
  "ruleNameText r =
     (case field r ''name'' of
        None \<Rightarrow> Some []
      | Some n \<Rightarrow> (if truthy (Some n) then js_toString n else Some []))"

text \<open>
  \<^verbatim>\<open>transcodeRules.forEach\<close> for one track, with its variable \<^verbatim>\<open>ruleMatched\<close>: a rule
  after the first match is skipped; the first rule that matches has its operations
  applied, and an empty list of operations changes nothing in the state.
\<close>

fun rulesLoop ::
  "runtime \<Rightarrow> stream \<Rightarrow> bool \<Rightarrow> progress \<Rightarrow> json list \<Rightarrow> jserror + bool \<times> progress" where
  "rulesLoop rt track ruleMatched st [] = Inr (ruleMatched, st)"
| "rulesLoop rt track ruleMatched st (rule # rules) =
     (if ruleMatched then rulesLoop rt track ruleMatched st rules
      else case trackMatches rt track (matchOf rule) of
        Inl e \<Rightarrow> Inl e
      | Inr False \<Rightarrow> rulesLoop rt track ruleMatched st rules
      | Inr True \<Rightarrow>
          (case ruleNameText rule of
             None \<Rightarrow> Inl TypeError
           | Some name \<Rightarrow>
               (case applyOperations rt track (field (matchOf rule) ''title'') st
                       (operationsOf rule) of
                  Inl e \<Rightarrow> Inl e
                | Inr st' \<Rightarrow> rulesLoop rt track True st' rules)))"

text \<open>
  One audio track: the rules, then the verbatim copy when no rule matched, then
  \<^verbatim>\<open>inputTrackIndex++\<close>.
\<close>

definition processTrack :: "runtime \<Rightarrow> json list \<Rightarrow> progress \<Rightarrow> stream \<Rightarrow> jserror + progress" where
  "processTrack rt transcodeRules st track =
     (case rulesLoop rt track False st transcodeRules of
        Inl e \<Rightarrow> Inl e
      | Inr (ruleMatched, st') \<Rightarrow>
          (let st'' =
             (if ruleMatched then st'
              else st'\<lparr>audioTracksCommands :=
                          audioTracksCommands st'
                            @ [MapCopy (inputTrackIndex st') (outputTrackIndex st')],
                        outputTrackIndex := outputTrackIndex st' + 1\<rparr>)
           in Inr (st''\<lparr>inputTrackIndex := inputTrackIndex st'' + 1\<rparr>)))"

fun processTracks :: "runtime \<Rightarrow> json list \<Rightarrow> progress \<Rightarrow> stream list \<Rightarrow> jserror + progress" where
  "processTracks rt transcodeRules st [] = Inr st"
| "processTracks rt transcodeRules st (track # tracks) =
     (case processTrack rt transcodeRules st track of
        Inl e \<Rightarrow> Inl e
      | Inr st' \<Rightarrow> processTracks rt transcodeRules st' tracks)"

definition initialProgress :: progress where
  "initialProgress =
     \<lparr>audioTracksCommands = [], inputTrackIndex = 0, outputTrackIndex = 0,
      requireTranscode = False\<rparr>"

section \<open>The plugin\<close>

text \<open>
  The file as the plugin reads it: \<^verbatim>\<open>file.container\<close>, \<^verbatim>\<open>file.ffProbeData\<close> with its
  \<^verbatim>\<open>streams\<close> and with
  \<^verbatim>\<open>format && format.tags && format.tags.COPYRIGHT\<close>.  The response without its log,
  which no decision reads.
\<close>

record probe =
  streams :: "stream list option"
  format_tags_COPYRIGHT :: "string option"

record mediafile =
  container :: string
  ffProbeData :: "probe option"

record response =
  processFile :: bool
  response_container :: string
  handBrakeMode :: bool
  FFmpegMode :: bool
  preset :: "string option"

definition initialResponse :: "mediafile \<Rightarrow> response" where
  "initialResponse file =
     \<lparr>processFile = False, response_container = ''.'' @ container file,
      handBrakeMode = False, FFmpegMode = True, preset = None\<rparr>"

definition pluginWatermark :: "string \<Rightarrow> string" where
  "pluginWatermark token = ''[Tdarr:advanced_audio_transcode_rename_remove:'' @ token @ '']''"

definition copyrightDataOf :: "probe \<Rightarrow> string" where
  "copyrightDataOf p = (case format_tags_COPYRIGHT p of Some c \<Rightarrow> c | None \<Rightarrow> [])"

definition hasCodecName :: "stream \<Rightarrow> bool" where
  "hasCodecName s = (case codec_name s of Some n \<Rightarrow> n \<noteq> [] \<and> n \<noteq> ''none'' | None \<Rightarrow> False)"

definition subtitleCommand :: "nat \<times> stream \<Rightarrow> string" where
  "subtitleCommand e =
     (if hasCodecName (snd e)
      then ''-map 0:s:'' @ show_nat (fst e) @ '' -c:s:'' @ show_nat (fst e) @ '' copy ''
      else [])"

definition subtitleCommands :: "stream list \<Rightarrow> string" where
  "subtitleCommands ss =
     (let subtitleStreams = filter (\<lambda>s. codec_type s = ''subtitle'') ss;
          text = concat (map subtitleCommand (zip [0..<length subtitleStreams] subtitleStreams))
      in if text = [] then ''-sn '' else text)"

definition buildPreset :: "command list \<Rightarrow> stream list \<Rightarrow> string \<Rightarrow> string \<Rightarrow> string" where
  "buildPreset cmds ss copyrightData watermark =
     '','' @ ''-map 0:v -c:v copy '' @ joinWith '' '' (map render cmds) @ '' ''
       @ subtitleCommands ss
       @ ''-metadata '' @ [CHR 0x22] @ ''copyright='' @ copyrightData @ watermark @ [CHR 0x22]"

text \<open>
  The end of the plugin, after the loop: the preset when \<^verbatim>\<open>requireTranscode\<close> holds,
  then the dry run, which clears the preset and the flag.
\<close>

definition finish ::
  "bool \<Rightarrow> response \<Rightarrow> progress \<Rightarrow> stream list \<Rightarrow> string \<Rightarrow> string \<Rightarrow> response" where
  "finish dryRun resp st ss copyrightData watermark =
     (let r = (if requireTranscode st
               then resp\<lparr>processFile := True,
                         preset := Some (buildPreset (audioTracksCommands st) ss copyrightData
                                           watermark)\<rparr>
               else resp)
      in if dryRun then r\<lparr>preset := Some [], processFile := False\<rparr> else r)"

text \<open>
  \<^verbatim>\<open>plugin\<close>.  \<open>parsed\<close> is the outcome of \<^verbatim>\<open>JSON.parse(inputs.transcodeRules)\<close>
  (\<open>None\<close> when it raises) and \<open>dryRun\<close> is \<^verbatim>\<open>inputs.dryRun === 'true'\<close>.
\<close>

definition plugin :: "runtime \<Rightarrow> mediafile \<Rightarrow> json option \<Rightarrow> bool \<Rightarrow> jserror + response" where
  "plugin rt file parsed dryRun =
     (case validateTranscodeRules parsed of
        Inl message \<Rightarrow> Inr (initialResponse file)
      | Inr transcodeRules \<Rightarrow>
          (case btoa_stringify rt transcodeRules of
             None \<Rightarrow> Inl InvalidCharacterError
           | Some token \<Rightarrow>
               (case ffProbeData file of
                  None \<Rightarrow> Inr (initialResponse file)
                | Some p \<Rightarrow>
                    (case streams p of
                       None \<Rightarrow> Inr (initialResponse file)
                     | Some ss \<Rightarrow>
                         (if includes_str (copyrightDataOf p) (pluginWatermark token)
                          then Inr (initialResponse file)
                          else let audioTracks = filter (\<lambda>s. codec_type s = ''audio'') ss
                               in if audioTracks = [] then Inr (initialResponse file)
                                  else (case processTracks rt transcodeRules initialProgress
                                               audioTracks of
                                          Inl e \<Rightarrow> Inl e
                                        | Inr st \<Rightarrow>
                                            Inr (finish dryRun (initialResponse file) st ss
                                                   (copyrightDataOf p) (pluginWatermark token))))))))"

section \<open>A host for closed examples\<close>

text \<open>
  For the examples, the host's functions on a fragment where they are plain to compute.
  \<^verbatim>\<open>JSON.stringify\<close> and \<^verbatim>\<open>btoa\<close> on ASCII text.  Regular expressions whose pattern is
  a non-empty run of letters, digits and spaces, alone or inside one pair of parentheses:
  such a pattern matches the occurrences of the run, and the flag \<^verbatim>\<open>i\<close> compares without
  regard to case.  Outside the fragment the functions give no answer.
\<close>

definition hex_char :: "nat \<Rightarrow> char" where
  "hex_char d = ''0123456789abcdef'' ! (d mod 16)"

definition escape_char :: "char \<Rightarrow> string" where
  "escape_char c =
     (if c = CHR 0x22 then [CHR 0x5C, CHR 0x22]
      else if c = CHR 0x5C then [CHR 0x5C, CHR 0x5C]
      else if c = CHR 0x08 then [CHR 0x5C, CHR ''b'']
      else if c = CHR 0x0C then [CHR 0x5C, CHR ''f'']
      else if c = CHR 0x0A then [CHR 0x5C, CHR ''n'']
      else if c = CHR 0x0D then [CHR 0x5C, CHR ''r'']
      else if c = CHR 0x09 then [CHR 0x5C, CHR ''t'']
      else if (of_char c :: nat) < 32
        then [CHR 0x5C, CHR ''u'', CHR ''0'', CHR ''0'',
              hex_char (of_char c div 16), hex_char (of_char c mod 16)]
      else [c])"

definition quote :: "string \<Rightarrow> string" where
  "quote t = [CHR 0x22] @ concat (map escape_char t) @ [CHR 0x22]"

fun stringify :: "json \<Rightarrow> string" where
  "stringify JNull = ''null''"
| "stringify (JBool b) = (if b then ''true'' else ''false'')"
| "stringify (JNum n) = show_int n"
| "stringify (JStr t) = quote t"
| "stringify (JArr xs) = ''['' @ joinWith '','' (map stringify xs) @ '']''"
| "stringify (JObj kvs) =
     ''{'' @ joinWith '','' (map (\<lambda>kv. quote (fst kv) @ '':'' @ stringify (snd kv)) kvs) @ ''}''"

definition base64_char :: "nat \<Rightarrow> char" where
  "base64_char n =
     ''ABCDEFGHIJKLMNOPQRSTUVWXYZabcdefghijklmnopqrstuvwxyz0123456789+/'' ! (n mod 64)"

fun base64 :: "nat list \<Rightarrow> string" where
  "base64 (a # b # c # r) =
     [base64_char (a div 4), base64_char (a mod 4 * 16 + b div 16),
      base64_char (b mod 16 * 4 + c div 64), base64_char (c mod 64)] @ base64 r"
| "base64 [a, b] =
     [base64_char (a div 4), base64_char (a mod 4 * 16 + b div 16),
      base64_char (b mod 16 * 4), CHR ''='']"
| "base64 [a] = [base64_char (a div 4), base64_char (a mod 4 * 16), CHR ''='', CHR ''='']"
| "base64 [] = []"

definition ascii_btoa :: "string \<Rightarrow> string option" where
  "ascii_btoa t =
     (if list_all (\<lambda>c. (of_char c :: nat) < 128) t then Some (base64 (map of_char t)) else None)"

definition isPlain :: "char \<Rightarrow> bool" where
  "isPlain c =
     (c \<in> set ''abcdefghijklmnopqrstuvwxyzABCDEFGHIJKLMNOPQRSTUVWXYZ0123456789 '')"

definition literalOf :: "string \<Rightarrow> (string \<times> bool) option" where
  "literalOf pattern =
     (if pattern \<noteq> [] \<and> list_all isPlain pattern then Some (pattern, False)
      else if 2 < length pattern \<and> hd pattern = CHR ''('' \<and> last pattern = CHR '')''
              \<and> list_all isPlain (butlast (tl pattern))
        then Some (butlast (tl pattern), True)
      else None)"

definition fold_case :: "string \<Rightarrow> string \<Rightarrow> string" where
  "fold_case flags t = (if CHR ''i'' \<in> set flags then toLowerCase t else t)"

function occurrences :: "string \<Rightarrow> string \<Rightarrow> string \<Rightarrow> string list" where
  "occurrences flags w [] = []"
| "occurrences flags w (c # cs) =
     (if w \<noteq> [] \<and> startsWith (fold_case flags (c # cs)) (fold_case flags w)
      then take (length w) (c # cs) # occurrences flags w (drop (length w) (c # cs))
      else occurrences flags w cs)"
  by pat_completeness auto
termination
  by (relation "measure (\<lambda>(flags, w, t). length t)") auto

definition ascii_test :: "string \<Rightarrow> string \<Rightarrow> string \<Rightarrow> bool option" where
  "ascii_test pattern flags t =
     (case literalOf pattern of
        None \<Rightarrow> None
      | Some (w, grouped) \<Rightarrow> Some (includes_str (fold_case flags t) (fold_case flags w)))"

definition ascii_matchAll :: "string \<Rightarrow> string \<Rightarrow> string \<Rightarrow> string option list list option" where
  "ascii_matchAll pattern flags t =
     (case literalOf pattern of
        None \<Rightarrow> None
      | Some (w, grouped) \<Rightarrow>
          Some (map (\<lambda>occ. if grouped then [Some occ] else []) (occurrences flags w t)))"

definition ascii_runtime :: runtime where
  "ascii_runtime =
     \<lparr>re_test = ascii_test, re_matchAll = ascii_matchAll,
      btoa_stringify = (\<lambda>rules. ascii_btoa (stringify (JArr rules)))\<rparr>"

text \<open>
  The encoder as the specification words it: the first flag that is true is bare, every
  later true flag has \<open>+\<close>, every false flag has \<open>-\<close>.
\<close>

fun spec_encode_from :: "bool \<Rightarrow> (string \<times> json) list \<Rightarrow> string" where
  "spec_encode_from seenTrue [] = []"
| "spec_encode_from seenTrue ((flag, v) # rest) =
     (if v = JBool True then (if seenTrue then ''+'' @ flag else flag) @ spec_encode_from True rest
      else ''-'' @ flag @ spec_encode_from seenTrue rest)"

definition spec_encode :: "(string \<times> json) list \<Rightarrow> string" where
  "spec_encode es = spec_encode_from False es"

definition laterFlag :: "string \<times> json \<Rightarrow> string" where
  "laterFlag e = (if snd e = JBool True then ''+'' else ''-'') @ fst e"

section \<open>Inputs of the examples\<close>

definition audio_track :: "string \<Rightarrow> int \<Rightarrow> int option \<Rightarrow> string option \<Rightarrow> stream" where
  "audio_track codec chans rate title =
     \<lparr>codec_type = ''audio'', codec_name = Some codec, channels = chans, bit_rate = rate,
      channel_layout = None, tags_language = None, tags_title = title, disposition = []\<rparr>"

definition media :: "stream list \<Rightarrow> string option \<Rightarrow> mediafile" where
  "media ss marker =
     \<lparr>container = ''mkv'',
      ffProbeData = Some \<lparr>streams = Some ss, format_tags_COPYRIGHT = marker\<rparr>\<rparr>"

definition rule :: "json \<Rightarrow> json list \<Rightarrow> json" where
  "rule m ops = JObj [(''match'', m), (''operations'', JArr ops)]"

text \<open>\<^verbatim>\<open>{"match": {"codecs": "*"}, "operations": []}\<close>\<close>

definition drop_all_rule :: json where
  "drop_all_rule = rule (JObj [(''codecs'', JStr ''*'')]) []"

text \<open>
  \<^verbatim>\<open>{"match": {"codecs": ["eac3"], "channels": "<=6"},
    "operations": [{"transcode": {"codec": "ac3"}}]}\<close>
\<close>

definition eac3_rule :: json where
  "eac3_rule =
     rule (JObj [(''codecs'', JArr [JStr ''eac3'']), (''channels'', JStr ''<=6'')])
       [JObj [(''transcode'', JObj [(''codec'', JStr ''ac3'')])]]"

text \<open>
  \<^verbatim>\<open>{"match": {"codecs": "*"}, "operations":
    [{"transcode": {"codec": c, "title": "{o_channels} {o_channels_fancy}"}}]}\<close>
\<close>

definition titled_rule :: "string \<Rightarrow> json" where
  "titled_rule c =
     rule (JObj [(''codecs'', JStr ''*'')])
       [JObj [(''transcode'',
          JObj [(''codec'', JStr c), (''title'', JStr ''{o_channels} {o_channels_fancy}'')])]]"





section \<open>Notions for the statements\<close>

text \<open>
  The selected rule of a track as the specification words it: the first rule, in the
  order of the document, whose match object the track passes.
\<close>

fun firstMatch :: "runtime \<Rightarrow> stream \<Rightarrow> json list \<Rightarrow> jserror + json option" where
  "firstMatch rt track [] = Inr None"
| "firstMatch rt track (r # rules) =
     (case trackMatches rt track (matchOf r) of
        Inl e \<Rightarrow> Inl e
      | Inr True \<Rightarrow> Inr (Some r)
      | Inr False \<Rightarrow> firstMatch rt track rules)"

text \<open>
  The instruction that opens an output track carries its output index: the copy of a
  stream and the codec of a transcode.  \<open>outputIndices\<close> lists these indices in the order
  of the instructions.
\<close>

fun outputIndexOf :: "command \<Rightarrow> nat option" where
  "outputIndexOf (MapCopy i out) = Some out"
| "outputIndexOf (SetCodec out c) = Some out"
| "outputIndexOf c = None"

definition outputIndices :: "command list \<Rightarrow> nat list" where
  "outputIndices cmds = List.map_filter outputIndexOf cmds"

definition opensOutput :: "json \<Rightarrow> bool" where
  "opensOutput operation =
     (truthy (field operation ''copy'') \<or> truthy (field operation ''transcode''))"

text \<open>Every operation of every rule has a truthy \<^verbatim>\<open>copy\<close> or a truthy \<^verbatim>\<open>transcode\<close>.\<close>

definition rulesOpenOutput :: "json list \<Rightarrow> bool" where
  "rulesOpenOutput rules = list_all (\<lambda>r. list_all opensOutput (operationsOf r)) rules"

text \<open>
  \<^verbatim>\<open>{"match": {"codecs": ["dts"]}, "operations": []}\<close> and
  \<^verbatim>\<open>{"match": {"codecs": ["truehd"]}, "operations":
    [{"transcode": {"codec": "aac"}}, {"copy": {}}]}\<close>
\<close>

definition dts_drop_rule :: json where
  "dts_drop_rule = rule (JObj [(''codecs'', JArr [JStr ''dts''])]) []"

definition truehd_rule :: json where
  "truehd_rule =
     rule (JObj [(''codecs'', JArr [JStr ''truehd''])])
       [JObj [(''transcode'', JObj [(''codec'', JStr ''aac'')])], JObj [(''copy'', JObj [])]]"

















section \<open>Properties\<close>

lemma dispositionLoop_False: "concat (dispositionLoop False es) = concat (map laterFlag es)"
  by (induction es) (auto simp: laterFlag_def)

text \<open>
  C2 (as the code has it).  Only the first entry of the mapping can be bare: it is bare
  when it is true.  Every later true flag has \<open>+\<close> and every false flag has \<open>-\<close>, in the
  order of the mapping.
\<close>

theorem getDispositionFlags_first_entry:
  "getDispositionFlags [] = [] \<and>
   getDispositionFlags ((flag, v) # rest) =
     (if v = JBool True then flag else ''-'' @ flag) @ concat (map laterFlag rest)"
  by (simp add: getDispositionFlags_def dispositionLoop_False)

text \<open>
  C2 (as stated) fails for \<^verbatim>\<open>{comment: false, default: true}\<close>: the code writes
  \<open>+default\<close>, the statement asks for a bare \<open>default\<close>.
\<close>

theorem getDispositionFlags_counterexample:
  "getDispositionFlags [(''comment'', JBool False), (''default'', JBool True)] = ''-comment+default'' \<and>
   spec_encode [(''comment'', JBool False), (''default'', JBool True)] = ''-commentdefault'' \<and>
   getDispositionFlags [(''comment'', JBool False), (''default'', JBool True)]
     \<noteq> spec_encode [(''comment'', JBool False), (''default'', JBool True)]"
  by (simp add: getDispositionFlags_def spec_encode_def)

text \<open>
  C1: a rule set that only drops tracks.  For one AAC track and the rule
  \<^verbatim>\<open>{"match": {"codecs": "*"}, "operations": []}\<close> the loop emits nothing for the
  track and leaves \<^verbatim>\<open>requireTranscode\<close> false, and the plugin returns the unchanged
  response: \<^verbatim>\<open>processFile\<close> false and no preset.
\<close>

theorem drop_only_run_is_unchanged:
  "validateTranscodeRules (Some (JArr [drop_all_rule])) = Inr [drop_all_rule] \<and>
   processTracks rt [drop_all_rule] initialProgress [audio_track ''aac'' 2 None None] =
     Inr \<lparr>audioTracksCommands = [], inputTrackIndex = 1, outputTrackIndex = 0,
          requireTranscode = False\<rparr> \<and>
   plugin ascii_runtime (media [audio_track ''aac'' 2 None None] None)
       (Some (JArr [drop_all_rule])) False =
     Inr \<lparr>processFile = False, response_container = ''.mkv'', handBrakeMode = False,
          FFmpegMode = True, preset = None\<rparr>"
  by code_simp

text \<open>
  C3: the track \<^verbatim>\<open>{codec: "eac3", channels: 6, bitrate: 768000}\<close>, the rule with codecs
  \<^verbatim>\<open>["eac3"]\<close> and channels \<^verbatim>\<open>"<=6"\<close>, a transcode to \<^verbatim>\<open>ac3\<close> with no bit rate.  The
  instructions are the mapping and the codec; there is no bit rate instruction.
\<close>

theorem transcode_without_bitrate_writes_no_bitrate:
  "validateTranscodeRules (Some (JArr [eac3_rule])) = Inr [eac3_rule] \<and>
   processTracks rt [eac3_rule] initialProgress [audio_track ''eac3'' 6 (Some 768000) None] =
     Inr \<lparr>audioTracksCommands = [MapSource 0, SetCodec 0 ''ac3''],
          inputTrackIndex = 1, outputTrackIndex = 1, requireTranscode = True\<rparr>"
  by code_simp

text \<open>
  C4: the title is expanded with the channels of the operation or of the track, not with
  the channels that the instruction carries.  A TrueHD track of 8 channels transcoded to
  \<^verbatim>\<open>ac3\<close> gets \<^verbatim>\<open>-ac 6\<close> and the title \<^verbatim>\<open>8 7.1\<close>; a DTS track of 7 channels
  transcoded to \<^verbatim>\<open>aac\<close> gets \<^verbatim>\<open>-ac 8\<close> and the title \<^verbatim>\<open>7 6.1\<close>.
\<close>

theorem title_ignores_resolved_channels:
  "validateTranscodeRules (Some (JArr [titled_rule ''ac3''])) = Inr [titled_rule ''ac3''] \<and>
   processTracks rt [titled_rule ''ac3''] initialProgress [audio_track ''truehd'' 8 None None] =
     Inr \<lparr>audioTracksCommands =
            [MapSource 0, SetCodec 0 ''ac3'', SetChannels 0 6, SetTitle 0 ''8 7.1''],
          inputTrackIndex = 1, outputTrackIndex = 1, requireTranscode = True\<rparr> \<and>
   processTracks rt [titled_rule ''aac''] initialProgress [audio_track ''dts'' 7 None None] =
     Inr \<lparr>audioTracksCommands =
            [MapSource 0, SetCodec 0 ''aac'', SetChannels 0 8, SetTitle 0 ''7 6.1''],
          inputTrackIndex = 1, outputTrackIndex = 1, requireTranscode = True\<rparr>"
  by code_simp

text \<open>
  C6: the codec test lowers the track's codec name and compares it with the listed names
  as they are written, so a rule that lists \<^verbatim>\<open>AC3\<close> does not match a track that reports
  \<^verbatim>\<open>ac3\<close>; the negated form lowers both sides.
\<close>

theorem uppercase_codec_in_list_never_matches:
  "trackMatches rt (audio_track ''ac3'' 6 None None) (JObj [(''codecs'', JArr [JStr ''AC3''])])
     = Inr False \<and>
   trackMatches rt (audio_track ''AC3'' 6 None None) (JObj [(''codecs'', JArr [JStr ''ac3''])])
     = Inr True \<and>
   trackMatches rt (audio_track ''ac3'' 6 None None) (JObj [(''codecs'', JStr ''!AC3'')])
     = Inr False"
  by code_simp

lemma map_of_setField:
  "map_of (map (\<lambda>(k', v'). if k' = k then (k', v) else (k', v')) kvs) k'' =
     (if k'' = k then map_option (\<lambda>_. v) (map_of kvs k) else map_of kvs k'')"
  by (induction kvs) auto

lemma field_setField:
  "field (setField (JObj kvs) k v) k'' =
     (if k'' = k then map_option (\<lambda>_. v) (map_of kvs k) else map_of kvs k'')"
  by (simp add: map_of_setField)




lemma firstError_None: "firstError cs = None \<longleftrightarrow> list_all (\<lambda>c. c = None) cs"
  by (induction cs rule: firstError.induct) auto

lemma validateRules_None:
  "validateRules rules = None \<longleftrightarrow> (\<forall>i<length rules. validateRule i (rules ! i) = None)"
  by (simp add: validateRules_def firstError_None list_all_length)

lemma validateTranscodeRules_Inr:
  "validateTranscodeRules parsed = Inr rs \<longleftrightarrow>
     (\<exists>rules. parsed = Some (JArr rules) \<and> validateRules rules = None
        \<and> rs = map normalisePattern rules)"
  by (auto simp: validateTranscodeRules_def split: option.splits json.splits)

lemma startsWith_append: "startsWith (w @ r) w"
  by (induction w) auto

lemma includes_str_Nil: "includes_str t []"
  by (cases t) auto

lemma includes_str_self: "includes_str (w @ r) w"
proof (cases w)
  case Nil
  then show ?thesis by (simp add: includes_str_Nil)
next
  case (Cons c cs)
  with startsWith_append [of w r] show ?thesis by simp
qed

lemma includes_str_append: "includes_str (a @ w @ r) w"
  by (induction a) (auto simp: includes_str_self)

lemma buildPreset_ends_with_marker:
  "\<exists>body. buildPreset cmds ss copyrightData watermark =
     body @ ''-metadata '' @ [CHR 0x22] @ ''copyright='' @ copyrightData @ watermark @ [CHR 0x22]"
  unfolding buildPreset_def
  by (rule exI [of _ "'','' @ ''-map 0:v -c:v copy '' @ joinWith '' '' (map render cmds) @ '' '' @ subtitleCommands ss"]) simp

text \<open>
  C8.  The marker is \<open>pluginWatermark token\<close>, where the token is computed from the
  validated rules alone.  For a file with probe data and streams: when the file's
  \<^verbatim>\<open>COPYRIGHT\<close> text contains the marker, the plugin returns its initial response
  (\<^verbatim>\<open>processFile\<close> false, no preset), whatever the tracks are; when a run returns
  \<^verbatim>\<open>processFile\<close> true, its preset ends with the copyright metadata made of the old
  text followed by the marker; and on any file that carries that text the plugin, given
  the same rules, returns its initial response.
\<close>

theorem watermark_idempotence:
  assumes "validateTranscodeRules parsed = Inr rules"
    and "btoa_stringify rt rules = Some token"
    and "ffProbeData file = Some p"
    and "streams p = Some ss"
  shows "(includes_str (copyrightDataOf p) (pluginWatermark token) \<longrightarrow>
            plugin rt file parsed dryRun = Inr (initialResponse file)) \<and>
         processFile (initialResponse file) = False \<and> preset (initialResponse file) = None \<and>
         (plugin rt file parsed dryRun = Inr r \<and> processFile r \<longrightarrow>
            (\<exists>body. preset r = Some (body @ ''-metadata '' @ [CHR 0x22] @ ''copyright=''
                        @ copyrightDataOf p @ pluginWatermark token @ [CHR 0x22]))) \<and>
         (ffProbeData file' = Some p' \<and>
          format_tags_COPYRIGHT p' = Some (copyrightDataOf p @ pluginWatermark token) \<longrightarrow>
            plugin rt file' parsed dryRun' = Inr (initialResponse file'))"
proof -
  have first: "plugin rt file parsed dryRun = Inr (initialResponse file)"
    if "includes_str (copyrightDataOf p) (pluginWatermark token)"
    using assms that by (simp add: plugin_def)
  have emitted: "\<exists>body. preset r = Some (body @ ''-metadata '' @ [CHR 0x22] @ ''copyright=''
                        @ copyrightDataOf p @ pluginWatermark token @ [CHR 0x22])"
    if run: "plugin rt file parsed dryRun = Inr r" and changed: "processFile r"
  proof -
    from run changed assms obtain st where
      r: "r = finish dryRun (initialResponse file) st ss (copyrightDataOf p) (pluginWatermark token)"
      by (auto simp: plugin_def Let_def initialResponse_def split: if_splits sum.splits)
    with changed have "\<not> dryRun" "requireTranscode st"
      by (auto simp: finish_def Let_def initialResponse_def split: if_splits)
    with r have "preset r = Some (buildPreset (audioTracksCommands st) ss (copyrightDataOf p)
        (pluginWatermark token))"
      by (simp add: finish_def)
    with buildPreset_ends_with_marker [of "audioTracksCommands st" ss "copyrightDataOf p"
        "pluginWatermark token"]
    show ?thesis by auto
  qed
  have second: "plugin rt file' parsed dryRun' = Inr (initialResponse file')"
    if p': "ffProbeData file' = Some p'"
      and m: "format_tags_COPYRIGHT p' = Some (copyrightDataOf p @ pluginWatermark token)"
  proof -
    from m have "copyrightDataOf p' = copyrightDataOf p @ pluginWatermark token @ []"
      by (simp add: copyrightDataOf_def)
    then have "includes_str (copyrightDataOf p') (pluginWatermark token)"
      by (simp only: includes_str_append)
    with assms(1,2) p' show ?thesis
      by (simp add: plugin_def split: option.splits)
  qed
  show ?thesis
    using first emitted second by (simp add: initialResponse_def)
qed

theorem watermark_idempotence_witness:
  "validateTranscodeRules (Some (JArr [eac3_rule])) = Inr [eac3_rule] \<and>
   btoa_stringify ascii_runtime [eac3_rule] =
     Some ''W3sibWF0Y2giOnsiY29kZWNzIjpbImVhYzMiXSwiY2hhbm5lbHMiOiI8PTYifSwib3BlcmF0aW9ucyI6W3sidHJhbnNjb2RlIjp7ImNvZGVjIjoiYWMzIn19XX1d'' \<and>
   plugin ascii_runtime (media [audio_track ''eac3'' 6 (Some 768000) None] (Some ''old''))
       (Some (JArr [eac3_rule])) False =
     Inr \<lparr>processFile = True, response_container = ''.mkv'', handBrakeMode = False,
          FFmpegMode = True,
          preset = Some ('',-map 0:v -c:v copy -map 0:a:0 -c:a:0 ac3 -sn -metadata ''
            @ [CHR 0x22]
            @ ''copyright=old[Tdarr:advanced_audio_transcode_rename_remove:W3sibWF0Y2giOnsiY29kZWNzIjpbImVhYzMiXSwiY2hhbm5lbHMiOiI8PTYifSwib3BlcmF0aW9ucyI6W3sidHJhbnNjb2RlIjp7ImNvZGVjIjoiYWMzIn19XX1d]''
            @ [CHR 0x22])\<rparr> \<and>
   plugin ascii_runtime
       (media [audio_track ''ac3'' 6 (Some 448000) None]
          (Some ''old[Tdarr:advanced_audio_transcode_rename_remove:W3sibWF0Y2giOnsiY29kZWNzIjpbImVhYzMiXSwiY2hhbm5lbHMiOiI8PTYifSwib3BlcmF0aW9ucyI6W3sidHJhbnNjb2RlIjp7ImNvZGVjIjoiYWMzIn19XX1d]''))
       (Some (JArr [eac3_rule])) False =
     Inr \<lparr>processFile = False, response_container = ''.mkv'', handBrakeMode = False,
          FFmpegMode = True, preset = None\<rparr>"
proof -
  let ?token = "''W3sibWF0Y2giOnsiY29kZWNzIjpbImVhYzMiXSwiY2hhbm5lbHMiOiI8PTYifSwib3BlcmF0aW9ucyI6W3sidHJhbnNjb2RlIjp7ImNvZGVjIjoiYWMzIn19XX1d''"
  let ?marker = "''old[Tdarr:advanced_audio_transcode_rename_remove:W3sibWF0Y2giOnsiY29kZWNzIjpbImVhYzMiXSwiY2hhbm5lbHMiOiI8PTYifSwib3BlcmF0aW9ucyI6W3sidHJhbnNjb2RlIjp7ImNvZGVjIjoiYWMzIn19XX1d]''"
  let ?p = "\<lparr>streams = Some [audio_track ''eac3'' 6 (Some 768000) None],
             format_tags_COPYRIGHT = Some ''old''\<rparr>"
  let ?p' = "\<lparr>streams = Some [audio_track ''ac3'' 6 (Some 448000) None],
              format_tags_COPYRIGHT = Some ?marker\<rparr>"
  let ?file' = "media [audio_track ''ac3'' 6 (Some 448000) None] (Some ?marker)"
  have h1: "validateTranscodeRules (Some (JArr [eac3_rule])) = Inr [eac3_rule]"
    by code_simp
  have h2: "btoa_stringify ascii_runtime [eac3_rule] = Some ?token"
    by code_simp
  have h3: "ffProbeData (media [audio_track ''eac3'' 6 (Some 768000) None] (Some ''old'')) = Some ?p"
    by (simp add: media_def)
  have h4: "streams ?p = Some [audio_track ''eac3'' 6 (Some 768000) None]"
    by simp
  have h5: "ffProbeData ?file' = Some ?p'"
    by (simp add: media_def)
  have h6: "format_tags_COPYRIGHT ?p' = Some (copyrightDataOf ?p @ pluginWatermark ?token)"
    by (simp add: copyrightDataOf_def pluginWatermark_def)
  have run: "plugin ascii_runtime (media [audio_track ''eac3'' 6 (Some 768000) None] (Some ''old''))
       (Some (JArr [eac3_rule])) False =
     Inr \<lparr>processFile = True, response_container = ''.mkv'', handBrakeMode = False,
          FFmpegMode = True,
          preset = Some ('',-map 0:v -c:v copy -map 0:a:0 -c:a:0 ac3 -sn -metadata ''
            @ [CHR 0x22]
            @ ''copyright=old[Tdarr:advanced_audio_transcode_rename_remove:W3sibWF0Y2giOnsiY29kZWNzIjpbImVhYzMiXSwiY2hhbm5lbHMiOiI8PTYifSwib3BlcmF0aW9ucyI6W3sidHJhbnNjb2RlIjp7ImNvZGVjIjoiYWMzIn19XX1d]''
            @ [CHR 0x22])\<rparr>"
    by code_simp
  have r: "initialResponse ?file'
     = \<lparr>processFile = False, response_container = ''.mkv'', handBrakeMode = False,
            FFmpegMode = True, preset = None\<rparr>"
    by (simp add: initialResponse_def media_def)
  from watermark_idempotence [OF h1 h2 h3 h4, where file' = ?file' and p' = ?p'
      and dryRun' = False] h5 h6
  have "plugin ascii_runtime ?file' (Some (JArr [eac3_rule])) False = Inr (initialResponse ?file')"
    by blast
  then have "plugin ascii_runtime ?file' (Some (JArr [eac3_rule])) False
     = Inr \<lparr>processFile = False, response_container = ''.mkv'', handBrakeMode = False,
            FFmpegMode = True, preset = None\<rparr>"
    by (simp only: r)
  with h1 h2 run show ?thesis
    by (intro conjI)
qed

lemma replaceAllFrom_absent:
  "\<not> includes_str t search \<Longrightarrow> replaceAllFrom search rep pre t = t"
  by (induction t arbitrary: pre) auto

lemma replaceAll_absent: "\<not> includes_str t search \<Longrightarrow> replaceAll search rep t = t"
  by (simp add: replaceAll_def replaceAllFrom_absent)

lemma applyGroups_absent:
  "(\<And>n. n < length m \<Longrightarrow> \<not> includes_str t (placeholder (Suc (index + n)))) \<Longrightarrow>
   applyGroups index m t = t"
proof (induction m arbitrary: index)
  case Nil
  then show ?case by simp
next
  case (Cons g groups)
  from Cons.prems [of 0] have here: "replaceAll (placeholder (index + 1)) (groupText g) t = t"
    by (simp add: replaceAll_absent)
  have "applyGroups (index + 1) groups t = t"
  proof (rule Cons.IH)
    fix n assume "n < length groups"
    with Cons.prems [of "Suc n"] show "\<not> includes_str t (placeholder (Suc (index + 1 + n)))"
      by simp
  qed
  with here show ?case by simp
qed

lemma applyMatches_absent:
  assumes "\<And>n. n < bound \<Longrightarrow> \<not> includes_str t (placeholder (Suc n))"
    and "list_all (\<lambda>m. length m \<le> bound) ms"
  shows "applyMatches ms t = t"
  using assms(2)
proof (induction ms)
  case Nil
  then show ?case by simp
next
  case (Cons m ms)
  then have "applyGroups 0 m t = t"
    using assms(1) by (intro applyGroups_absent) simp
  with Cons show ?case by simp
qed

text \<open>
  C5 (as the code has it).  The matches are applied one after the other, and each group
  of a match replaces every occurrence of its placeholder that the title still holds.
  When the title after the first match holds none of the placeholders of the groups, the
  later matches change nothing: the capture-group pass gives what the first match made,
  and \<^verbatim>\<open>getNewTrackTitle\<close> gives what it gives when the pattern has that one match.
\<close>

theorem capture_groups_first_match_wins:
  assumes "truthy (Some t)"
    and "re_matchAll rt (patternOf t) (expanderFlags (field t ''caseSensitive''))
           (trackTitleOf track) = Some (m # ms)"
    and "list_all (\<lambda>m'. length m' \<le> length m) ms"
    and "list_all (\<lambda>n. \<not> includes_str (applyGroups 0 m (titleTemplate operation))
                          (placeholder (Suc n))) [0..<length m]"
  shows "captureGroups rt (Some t) (trackTitleOf track) (titleTemplate operation)
           = Inr (applyGroups 0 m (titleTemplate operation)) \<and>
         getNewTrackTitle rt track (Some t) operation bitrate
           = getNewTrackTitle (rt\<lparr>re_matchAll := \<lambda>pattern flags s. Some [m]\<rparr>) track (Some t)
               operation bitrate"
proof -
  let ?first = "applyGroups 0 m (titleTemplate operation)"
  have "applyMatches ms ?first = ?first"
  proof (rule applyMatches_absent [where bound = "length m"])
    fix n assume "n < length m"
    with assms(4) show "\<not> includes_str ?first (placeholder (Suc n))"
      by (simp add: list_all_iff)
  qed (rule assms(3))
  with assms(1,2)
  have all: "captureGroups rt (Some t) (trackTitleOf track) (titleTemplate operation) = Inr ?first"
    by (simp add: captureGroups_def)
  from assms(1)
  have one: "captureGroups (rt\<lparr>re_matchAll := \<lambda>pattern flags s. Some [m]\<rparr>) (Some t)
      (trackTitleOf track) (titleTemplate operation) = Inr ?first"
    by (simp add: captureGroups_def)
  show ?thesis
    using all by (simp only: getNewTrackTitle_def all one)
qed

theorem capture_groups_first_match_wins_witness:
  "re_matchAll ascii_runtime ''(ab)'' ''gi'' ''AB ab'' = Some [[Some ''AB''], [Some ''ab'']] \<and>
   applyGroups 0 [Some ''AB''] ''{1}-{1}'' = ''AB-AB'' \<and>
   captureGroups ascii_runtime (Some (JObj [(''pattern'', JStr ''(ab)'')])) ''AB ab'' ''{1}-{1}''
     = Inr ''AB-AB'' \<and>
   getNewTrackTitle ascii_runtime (audio_track ''aac'' 2 None (Some ''AB ab''))
       (Some (JObj [(''pattern'', JStr ''(ab)'')])) (JObj [(''title'', JStr ''{1}-{1}'')]) None
     = Inr ''AB-AB''"
proof -
  let ?t = "JObj [(''pattern'', JStr ''(ab)'')]"
  let ?track = "audio_track ''aac'' 2 None (Some ''AB ab'')"
  let ?operation = "JObj [(''title'', JStr ''{1}-{1}'')]"
  have h1: "truthy (Some ?t)"
    by simp
  have m: "re_matchAll ascii_runtime ''(ab)'' ''gi'' ''AB ab'' = Some [[Some ''AB''], [Some ''ab'']]"
    by code_simp
  have p: "patternOf ?t = ''(ab)''" "expanderFlags (field ?t ''caseSensitive'') = ''gi''"
    "trackTitleOf ?track = ''AB ab''" "titleTemplate ?operation = ''{1}-{1}''"
    by code_simp+
  have h2: "re_matchAll ascii_runtime (patternOf ?t) (expanderFlags (field ?t ''caseSensitive''))
      (trackTitleOf ?track) = Some ([Some ''AB''] # [[Some ''ab'']])"
    unfolding p by (rule m)
  have h3: "list_all (\<lambda>m'. length m' \<le> length [Some ''AB'']) [[Some ''ab'']]"
    by simp
  have g: "applyGroups 0 [Some ''AB''] ''{1}-{1}'' = ''AB-AB''"
    by code_simp
  have h4: "list_all (\<lambda>n. \<not> includes_str (applyGroups 0 [Some ''AB''] (titleTemplate ?operation))
      (placeholder (Suc n))) [0..<length [Some ''AB'']]"
    unfolding p g by code_simp
  have t: "getNewTrackTitle ascii_runtime ?track (Some ?t) ?operation None = Inr ''AB-AB''"
    by code_simp
  from capture_groups_first_match_wins [OF h1 h2 h3 h4] m g t
  show ?thesis unfolding p by simp
qed

text \<open>
  C5 (as stated) fails for the title \<^verbatim>\<open>AB ab\<close>, the pattern \<^verbatim>\<open>(ab)\<close> with no
  \<^verbatim>\<open>caseSensitive\<close> and the template \<^verbatim>\<open>{1}\<close>: the pattern matches twice, and the
  title is the group of the first match, not of the last.
\<close>

theorem capture_groups_last_write_counterexample:
  "re_matchAll ascii_runtime ''(ab)'' ''gi'' ''AB ab'' = Some [[Some ''AB''], [Some ''ab'']] \<and>
   getNewTrackTitle ascii_runtime (audio_track ''aac'' 2 None (Some ''AB ab''))
       (Some (JObj [(''pattern'', JStr ''(ab)'')])) (JObj [(''title'', JStr ''{1}'')]) None
     = Inr ''AB'' \<and>
   getNewTrackTitle ascii_runtime (audio_track ''aac'' 2 None (Some ''AB ab''))
       (Some (JObj [(''pattern'', JStr ''(ab)'')])) (JObj [(''title'', JStr ''{1}'')]) None
     \<noteq> Inr ''ab''"
  by code_simp

lemma outputIndices_append [simp]:
  "outputIndices (xs @ ys) = outputIndices xs @ outputIndices ys"
  by (simp add: outputIndices_def map_filter_def)

lemma outputIndices_simps [simp]:
  "outputIndices [] = []"
  "outputIndices (c # cs) = (case outputIndexOf c of None \<Rightarrow> outputIndices cs | Some out \<Rightarrow> out # outputIndices cs)"
  by (simp_all add: outputIndices_def split: option.splits)

lemma upt_join: "a \<le> b \<Longrightarrow> b \<le> c \<Longrightarrow> [a..<b] @ [b..<c] = [a..<(c::nat)]"
  using upt_add_eq_append [of a b "c - b"] by simp

lemma titleCommands_indices:
  "titleCommands rt track mt operation bitrate out = Inr ts \<Longrightarrow> outputIndices ts = []"
  by (auto simp: titleCommands_def split: if_splits sum.splits)

lemma dispositionCommands_indices [simp]: "outputIndices (dispositionCommands operation out) = []"
  by (simp add: dispositionCommands_def split: option.splits)

lemma channelsCommands_indices [simp]:
  "outputIndices (channelsCommands track transcode targetCodec out) = []"
  by (simp add: channelsCommands_def Let_def)

lemma bitrateCommands_indices [simp]:
  "outputIndices (bitrateCommands track transcode targetCodec out) = []"
  by (simp add: bitrateCommands_def)

lemma filterCommands_indices [simp]: "outputIndices (filterCommands transcode out) = []"
  by (simp add: filterCommands_def)

lemma copyCommands_indices:
  "copyCommands rt track mt copy i out = Inr cs \<Longrightarrow> outputIndices cs = [out]"
  by (auto simp: copyCommands_def titleCommands_indices split: sum.splits)

lemma transcodeCommands_indices:
  "transcodeCommands rt track mt transcode i out = Inr cs \<Longrightarrow> outputIndices cs = [out]"
  by (auto simp: transcodeCommands_def titleCommands_indices split: sum.splits option.splits)

lemma operationCommands_indices:
  "opensOutput operation \<Longrightarrow> operationCommands rt track mt operation i out = Inr cs \<Longrightarrow>
   outputIndices cs = [out]"
  by (auto simp: opensOutput_def operationCommands_def copyCommands_indices
      transcodeCommands_indices split: option.splits if_splits)

lemma applyOperation_step:
  assumes "applyOperation rt track mt st operation = Inr st'"
  shows "inputTrackIndex st' = inputTrackIndex st"
    and "outputTrackIndex st' = outputTrackIndex st + 1"
    and "requireTranscode st'"
    and "\<exists>cs. audioTracksCommands st' = audioTracksCommands st @ cs \<and>
           (opensOutput operation \<longrightarrow> outputIndices cs = [outputTrackIndex st])"
  using assms
  by (auto simp: applyOperation_def operationCommands_indices split: sum.splits)

lemma applyOperations_steps:
  assumes "applyOperations rt track mt st ops = Inr st'"
  shows "inputTrackIndex st' = inputTrackIndex st \<and>
         outputTrackIndex st' = outputTrackIndex st + length ops \<and>
         (\<exists>cs. audioTracksCommands st' = audioTracksCommands st @ cs \<and>
            (list_all opensOutput ops \<longrightarrow>
               outputIndices cs = [outputTrackIndex st ..< outputTrackIndex st + length ops]))"
  using assms
proof (induction ops arbitrary: st)
  case Nil
  then show ?case by simp
next
  case (Cons operation ops)
  from Cons.prems obtain mid where
    one: "applyOperation rt track mt st operation = Inr mid"
    and rest: "applyOperations rt track mt mid ops = Inr st'"
    by (auto split: sum.splits)
  from applyOperation_step [OF one] obtain cs1 where
    s1: "inputTrackIndex mid = inputTrackIndex st" "outputTrackIndex mid = outputTrackIndex st + 1"
      "audioTracksCommands mid = audioTracksCommands st @ cs1"
      "opensOutput operation \<longrightarrow> outputIndices cs1 = [outputTrackIndex st]"
    by blast
  from Cons.IH [OF rest] obtain cs2 where
    s2: "inputTrackIndex st' = inputTrackIndex mid"
      "outputTrackIndex st' = outputTrackIndex mid + length ops"
      "audioTracksCommands st' = audioTracksCommands mid @ cs2"
      "list_all opensOutput ops \<longrightarrow>
         outputIndices cs2 = [outputTrackIndex mid ..< outputTrackIndex mid + length ops]"
    by blast
  have "audioTracksCommands st' = audioTracksCommands st @ (cs1 @ cs2)"
    using s1 s2 by simp
  moreover have "outputIndices (cs1 @ cs2)
      = [outputTrackIndex st ..< outputTrackIndex st + length (operation # ops)]"
    if "list_all opensOutput (operation # ops)"
  proof -
    have "[outputTrackIndex st ..< outputTrackIndex st + length (operation # ops)]
        = outputTrackIndex st # [outputTrackIndex st + 1 ..< outputTrackIndex st + 1 + length ops]"
      by (simp add: upt_conv_Cons del: upt_Suc)
    with that s1 s2 show ?thesis
      by (simp del: upt_Suc)
  qed
  ultimately show ?case
    using s1 s2 by auto
qed

lemma rulesLoop_matched: "rulesLoop rt track True st rules = Inr (True, st)"
  by (induction rules) auto

lemma rulesLoop_firstMatch:
  "rulesLoop rt track False st rules =
     (case firstMatch rt track rules of
        Inl e \<Rightarrow> Inl e
      | Inr None \<Rightarrow> Inr (False, st)
      | Inr (Some r) \<Rightarrow>
          (case ruleNameText r of
             None \<Rightarrow> Inl TypeError
           | Some name \<Rightarrow>
               (case applyOperations rt track (field (matchOf r) ''title'') st
                       (operationsOf r) of
                  Inl e \<Rightarrow> Inl e
                | Inr st' \<Rightarrow> Inr (True, st'))))"
  by (induction rules)
    (auto simp: rulesLoop_matched split: sum.splits bool.splits option.splits)

lemma firstMatch_member: "firstMatch rt track rules = Inr (Some r) \<Longrightarrow> r \<in> set rules"
  by (induction rules) (auto split: sum.splits bool.splits)

lemma processTrack_outcome:
  "processTrack rt rules st track =
     (case firstMatch rt track rules of
        Inl e \<Rightarrow> Inl e
      | Inr None \<Rightarrow>
          Inr (st\<lparr>audioTracksCommands :=
                    audioTracksCommands st @ [MapCopy (inputTrackIndex st) (outputTrackIndex st)],
                  outputTrackIndex := outputTrackIndex st + 1,
                  inputTrackIndex := inputTrackIndex st + 1\<rparr>)
      | Inr (Some r) \<Rightarrow>
          (case ruleNameText r of
             None \<Rightarrow> Inl TypeError
           | Some name \<Rightarrow>
               (case applyOperations rt track (field (matchOf r) ''title'') st
                       (operationsOf r) of
                  Inl e \<Rightarrow> Inl e
                | Inr st' \<Rightarrow> Inr (st'\<lparr>inputTrackIndex := inputTrackIndex st' + 1\<rparr>))))"
  by (simp add: processTrack_def rulesLoop_firstMatch split: sum.splits option.splits)

lemma processTrack_step:
  assumes "processTrack rt rules st track = Inr st'"
  shows "inputTrackIndex st' = inputTrackIndex st + 1 \<and>
         (\<exists>cs. audioTracksCommands st' = audioTracksCommands st @ cs \<and>
            (rulesOpenOutput rules \<longrightarrow>
               outputIndices cs = [outputTrackIndex st ..< outputTrackIndex st']))"
proof (cases "firstMatch rt track rules")
  case (Inl e)
  with assms show ?thesis by (simp add: processTrack_outcome)
next
  case (Inr found)
  show ?thesis
  proof (cases found)
    case None
    with Inr assms show ?thesis
      by (auto simp: processTrack_outcome)
  next
    case (Some r)
    with Inr assms obtain mid where
      ops: "applyOperations rt track (field (matchOf r) ''title'') st (operationsOf r) = Inr mid"
      and st': "st' = mid\<lparr>inputTrackIndex := inputTrackIndex mid + 1\<rparr>"
      by (auto simp: processTrack_outcome split: sum.splits option.splits)
    from Some Inr have "r \<in> set rules"
      by (simp add: firstMatch_member)
    then have wf: "rulesOpenOutput rules \<longrightarrow> list_all opensOutput (operationsOf r)"
      by (auto simp: rulesOpenOutput_def list_all_iff)
    from applyOperations_steps [OF ops] wf st' show ?thesis
      by auto
  qed
qed

lemma processTracks_steps:
  assumes "processTracks rt rules st tracks = Inr st'"
  shows "inputTrackIndex st' = inputTrackIndex st + length tracks \<and>
         (\<exists>cs. audioTracksCommands st' = audioTracksCommands st @ cs \<and>
            outputTrackIndex st \<le> outputTrackIndex st' \<and>
            (rulesOpenOutput rules \<longrightarrow>
               outputIndices cs = [outputTrackIndex st ..< outputTrackIndex st']))"
  using assms
proof (induction tracks arbitrary: st)
  case Nil
  then show ?case by simp
next
  case (Cons track tracks)
  from Cons.prems obtain mid where
    one: "processTrack rt rules st track = Inr mid"
    and rest: "processTracks rt rules mid tracks = Inr st'"
    by (auto split: sum.splits)
  from processTrack_step [OF one] obtain cs1 where
    s1: "inputTrackIndex mid = inputTrackIndex st + 1"
      "audioTracksCommands mid = audioTracksCommands st @ cs1"
      "rulesOpenOutput rules \<longrightarrow> outputIndices cs1 = [outputTrackIndex st ..< outputTrackIndex mid]"
    by blast
  have mono: "outputTrackIndex st \<le> outputTrackIndex mid"
    using one applyOperations_steps
    by (fastforce simp: processTrack_outcome split: sum.splits option.splits)
  from Cons.IH [OF rest] obtain cs2 where
    s2: "inputTrackIndex st' = inputTrackIndex mid + length tracks"
      "audioTracksCommands st' = audioTracksCommands mid @ cs2"
      "outputTrackIndex mid \<le> outputTrackIndex st'"
      "rulesOpenOutput rules \<longrightarrow> outputIndices cs2 = [outputTrackIndex mid ..< outputTrackIndex st']"
    by blast
  have "audioTracksCommands st' = audioTracksCommands st @ (cs1 @ cs2)"
    using s1 s2 by simp
  moreover have "outputIndices (cs1 @ cs2) = [outputTrackIndex st ..< outputTrackIndex st']"
    if "rulesOpenOutput rules"
    using that s1 s2 mono by (simp add: upt_join)
  ultimately show ?case
    using s1 s2 mono by auto
qed


lemma ownProperty_field: "ownProperty v k = Some (Some w) \<Longrightarrow> field v k = Some w"
  by (cases v) (auto split: if_splits)

lemma isObject_truthy: "isObject v \<Longrightarrow> truthy (Some v)"
  by (cases v) auto

lemma firstError_Cons_None: "firstError (c # cs) = None \<longleftrightarrow> c = None \<and> firstError cs = None"
  by (cases c) auto

lemma unless_None: "unless ok e = None \<longleftrightarrow> ok"
  by (simp add: unless_def)

lemma validateOperation_opens:
  assumes "validateOperation i j operation = None"
  shows "opensOutput operation"
proof (cases "ownProperty operation ''copy''")
  case None
  with assms show ?thesis
    by (simp add: validateOperation_def split: if_splits)
next
  case (Some found)
  show ?thesis
  proof (cases found)
    case (Some copy)
    with \<open>ownProperty operation ''copy'' = Some found\<close> assms
    have "isObject copy" "field operation ''copy'' = Some copy"
      by (auto simp: validateOperation_def validateCopy_def firstError_Cons_None unless_None
          ownProperty_field split: if_splits)
    then show ?thesis
      by (simp add: opensOutput_def isObject_truthy)
  next
    case None
    with \<open>ownProperty operation ''copy'' = Some found\<close> assms
    obtain transcode where "ownProperty operation ''transcode'' = Some (Some transcode)"
      "validateTranscode i j transcode = None"
      by (auto simp: validateOperation_def split: if_splits option.splits)
    then have "isObject transcode" "field operation ''transcode'' = Some transcode"
      by (auto simp: validateTranscode_def firstError_Cons_None unless_None ownProperty_field)
    then show ?thesis
      by (simp add: opensOutput_def isObject_truthy)
  qed
qed

lemma validateOperations_open:
  assumes "validateOperations i operations = None"
  shows "\<exists>ops. operations = JArr ops \<and> list_all opensOutput ops"
proof -
  from assms obtain ops where ops: "operations = JArr ops"
    and all: "firstError (map (\<lambda>(j, operation). validateOperation i j operation)
                (zip [0..<length ops] ops)) = None"
    by (auto simp: validateOperations_def split: json.splits)
  have "opensOutput (ops ! j)" if "j < length ops" for j
  proof -
    from all that have "validateOperation i j (ops ! j) = None"
      by (simp add: firstError_None list_all_length)
    then show ?thesis by (rule validateOperation_opens)
  qed
  with ops show ?thesis
    by (simp add: list_all_length)
qed

lemma validateRule_opens:
  assumes "validateRule i r = None"
  shows "list_all opensOutput (operationsOf r)"
proof -
  from assms obtain operations where
    own: "ownProperty r ''operations'' = Some (Some operations)"
    and ok: "validateOperations i operations = None"
    by (auto simp: validateRule_def firstError_Cons_None split: if_splits option.splits)
  from validateOperations_open [OF ok] obtain ops where
    "operations = JArr ops" "list_all opensOutput ops"
    by blast
  with ownProperty_field [OF own] show ?thesis
    by (simp add: operationsOf_def)
qed

lemma operationsOf_setField_match:
  "operationsOf (setField r ''match'' m) = operationsOf r"
proof (cases r)
  case (JObj kvs)
  have "field (setField (JObj kvs) ''match'' m) ''operations'' = field (JObj kvs) ''operations''"
    by (simp add: field_setField del: setField.simps)
  with JObj show ?thesis
    by (simp only: operationsOf_def)
qed (simp_all add: operationsOf_def)

lemma operationsOf_normalisePattern: "operationsOf (normalisePattern r) = operationsOf r"
  by (simp add: normalisePattern_def operationsOf_setField_match
      split: option.splits json.splits)

lemma validated_rules_open_output:
  assumes "validateTranscodeRules parsed = Inr rules"
  shows "rulesOpenOutput rules"
proof -
  from assms obtain rules' where
    rules: "rules = map normalisePattern rules'"
    and ok: "\<forall>k<length rules'. validateRule k (rules' ! k) = None"
    by (auto simp: validateTranscodeRules_Inr validateRules_None)
  have "list_all opensOutput (operationsOf (normalisePattern (rules' ! k)))"
    if "k < length rules'" for k
  proof -
    from ok that have "validateRule k (rules' ! k) = None"
      by simp
    then show ?thesis
      by (simp only: operationsOf_normalisePattern validateRule_opens)
  qed
  with rules show ?thesis
    by (simp add: rulesOpenOutput_def list_all_length)
qed


text \<open>
  C7.  For a validated rule set.  A track has one of three outcomes: no rule matches and
  the track is copied at the current indices; or the operations of the first matching
  rule are applied, which for an empty list leaves the state as it is.  In each case the
  input index grows by one.  Applying a list of operations leaves the input index and
  adds the length of the list to the output index.  After the whole loop the input index
  is the number of tracks, and the output indices of the instructions that open an
  output track are \<open>0, 1, \<dots>\<close> up to the final output index, in this order.
\<close>

theorem index_bookkeeping:
  assumes "validateTranscodeRules parsed = Inr rules"
  shows "processTrack rt rules st track =
           (case firstMatch rt track rules of
              Inl e \<Rightarrow> Inl e
            | Inr None \<Rightarrow>
                Inr (st\<lparr>audioTracksCommands :=
                          audioTracksCommands st
                            @ [MapCopy (inputTrackIndex st) (outputTrackIndex st)],
                        outputTrackIndex := outputTrackIndex st + 1,
                        inputTrackIndex := inputTrackIndex st + 1\<rparr>)
            | Inr (Some r) \<Rightarrow>
                (case ruleNameText r of
                   None \<Rightarrow> Inl TypeError
                 | Some name \<Rightarrow>
                     (case applyOperations rt track (field (matchOf r) ''title'') st
                             (operationsOf r) of
                        Inl e \<Rightarrow> Inl e
                      | Inr st' \<Rightarrow>
                          Inr (st'\<lparr>inputTrackIndex := inputTrackIndex st' + 1\<rparr>)))) \<and>
         (processTrack rt rules st track = Inr st1 \<longrightarrow>
            inputTrackIndex st1 = inputTrackIndex st + 1) \<and>
         (applyOperations rt track mt st ops = Inr st2 \<longrightarrow>
            inputTrackIndex st2 = inputTrackIndex st \<and>
            outputTrackIndex st2 = outputTrackIndex st + length ops) \<and>
         (processTracks rt rules initialProgress tracks = Inr final \<longrightarrow>
            inputTrackIndex final = length tracks \<and>
            outputIndices (audioTracksCommands final) = [0..<outputTrackIndex final])"
proof -
  have wf: "rulesOpenOutput rules"
    using assms by (rule validated_rules_open_output)
  have one: "inputTrackIndex st1 = inputTrackIndex st + 1"
    if "processTrack rt rules st track = Inr st1"
    using processTrack_step [OF that] by simp
  have ops: "inputTrackIndex st2 = inputTrackIndex st \<and>
      outputTrackIndex st2 = outputTrackIndex st + length ops"
    if "applyOperations rt track mt st ops = Inr st2"
    using applyOperations_steps [OF that] by simp
  have run: "inputTrackIndex final = length tracks \<and>
      outputIndices (audioTracksCommands final) = [0..<outputTrackIndex final]"
    if "processTracks rt rules initialProgress tracks = Inr final"
    using processTracks_steps [OF that] wf by (auto simp: initialProgress_def)
  show ?thesis
    using one ops run by (simp only: processTrack_outcome) blast
qed

theorem index_bookkeeping_witness:
  "validateTranscodeRules (Some (JArr [dts_drop_rule, truehd_rule]))
     = Inr [dts_drop_rule, truehd_rule] \<and>
   processTracks ascii_runtime [dts_drop_rule, truehd_rule] initialProgress
       [audio_track ''dts'' 6 None None, audio_track ''ac3'' 6 None None,
        audio_track ''truehd'' 8 None None]
     = Inr \<lparr>audioTracksCommands =
              [MapCopy 1 0, MapSource 2, SetCodec 1 ''aac'', SetChannels 1 8, MapCopy 2 2],
            inputTrackIndex = 3, outputTrackIndex = 3, requireTranscode = True\<rparr> \<and>
   outputIndices [MapCopy 1 0, MapSource 2, SetCodec 1 ''aac'', SetChannels 1 8, MapCopy 2 2]
     = [0..<3]"
proof -
  let ?final = "\<lparr>audioTracksCommands =
              [MapCopy 1 0, MapSource 2, SetCodec 1 ''aac'', SetChannels 1 8, MapCopy 2 2],
            inputTrackIndex = 3, outputTrackIndex = 3, requireTranscode = True\<rparr>"
  have h: "validateTranscodeRules (Some (JArr [dts_drop_rule, truehd_rule]))
     = Inr [dts_drop_rule, truehd_rule]"
    by code_simp
  have run: "processTracks ascii_runtime [dts_drop_rule, truehd_rule] initialProgress
       [audio_track ''dts'' 6 None None, audio_track ''ac3'' 6 None None,
        audio_track ''truehd'' 8 None None] = Inr ?final"
    by code_simp
  from index_bookkeeping [OF h, where rt = ascii_runtime and final = ?final
      and tracks = "[audio_track ''dts'' 6 None None, audio_track ''ac3'' 6 None None,
        audio_track ''truehd'' 8 None None]"] run
  have "outputIndices (audioTracksCommands ?final) = [0..<outputTrackIndex ?final]"
    by blast
  with h run show ?thesis
    by simp
qed






























end
